theory Spec2Isabelle
  imports Main
begin

section \<open>JavaScript values used by the sync core\<close>

text \<open>
  An optional string property is a \<open>string option\<close>: \<open>None\<close> is \<open>undefined\<close>/\<open>null\<close>.
  JavaScript's truthiness test \<open>if (x)\<close> on such a value fails for \<open>undefined\<close> and for
  the empty string.
\<close>

datatype error = ApiError | TypeError | ServiceUnavailable

definition truthy :: "string option \<Rightarrow> bool" where
  "truthy v = (case v of None \<Rightarrow> False | Some s \<Rightarrow> s \<noteq> [])"

definition truthy_num :: "int option \<Rightarrow> bool" where
  "truthy_num v = (case v of None \<Rightarrow> False | Some n \<Rightarrow> n \<noteq> 0)"

text \<open>
  \<open>String.prototype.toLowerCase\<close> follows the Unicode case mappings of the JavaScript
  engine. It is not defined here: every definition that lowercases text takes the function
  as its first parameter \<open>toLowerCase\<close>, and what is proved of these definitions holds
  for every such function.
\<close>

text \<open>\<open>String.prototype.includes\<close>: \<open>str_includes hay needle\<close> is \<open>hay.includes(needle)\<close>.\<close>

fun startsWith :: "string \<Rightarrow> string \<Rightarrow> bool" where
  "startsWith hay [] = True"
| "startsWith [] (n # ns) = False"
| "startsWith (h # hs) (n # ns) = (h = n \<and> startsWith hs ns)"

fun str_includes :: "string \<Rightarrow> string \<Rightarrow> bool" where
  "str_includes [] needle = (needle = [])"
| "str_includes (h # hs) needle = (startsWith (h # hs) needle \<or> str_includes hs needle)"

text \<open>\<open>Array.prototype.join(', ')\<close>.\<close>

fun join_comma :: "string list \<Rightarrow> string" where
  "join_comma [] = []"
| "join_comma [x] = x"
| "join_comma (x # y # ys) = x @ '', '' @ join_comma (y # ys)"

text \<open>
  \<open>Math.round(ms / 1000)\<close> on an integer number of milliseconds: the nearest integer,
  a tie going up.
\<close>

definition round_seconds :: "int \<Rightarrow> int" where
  "round_seconds ms = (ms + 500) div 1000"

section \<open>The canonical track and the two normalizers\<close>

text \<open>
  The object built by \<open>processTrackData\<close>. The properties \<open>explicit\<close>, \<open>popularity\<close>,
  \<open>label\<close> and \<open>genre\<close> are never read after normalization and are left out.
  \<open>duration\<close> is \<open>null\<close> (here \<open>None\<close>) or a number of seconds; \<open>ttype\<close> is the
  property \<open>type\<close>.
\<close>

record track =
  source :: string
  sourceId :: string
  title :: string
  url :: "string option"
  duration :: "int option"
  trackNumber :: "int option"
  artist :: "string option"
  performedBy :: "string option"
  album :: "string option"
  releaseDate :: "string option"
  isrc :: "string option"
  composer :: "string option"
  ttype :: "string option"
  playlist :: "string option"

record playlist_info =
  pl_name :: string
  pl_trackCount :: nat

text \<open>A track object of the Spotify Web API, with the properties the normalizer reads.\<close>

record spotify_album =
  sa_name :: "string option"
  sa_release_date :: "string option"

record spotify_track =
  sp_type :: string
  sp_id :: string
  sp_name :: string
  sp_url :: "string option"
  sp_duration_ms :: "int option"
  sp_track_number :: "int option"
  sp_artists :: "string list option"
  sp_album :: "spotify_album option"
  sp_isrc :: "string option"

text \<open>A resource of the Apple Music API: \<open>type\<close>, \<open>id\<close> and its \<open>attributes\<close>.\<close>

record apple_track =
  am_type :: string
  am_id :: string
  am_name :: string
  am_url :: "string option"
  am_durationInMillis :: "int option"
  am_trackNumber :: "int option"
  am_artistName :: "string option"
  am_albumName :: "string option"
  am_releaseDate :: "string option"
  am_isrc :: "string option"
  am_composerName :: "string option"

text \<open>
  The catalogue services as the clients see them during one run: the health check, the
  playlist metadata request, and the pages a playlist's track listing is served in (each
  page request succeeds with its items or fails; the last page carries no \<open>next\<close> link).
  An item of a Spotify page may have no \<open>track\<close>.
\<close>

record env =
  sp_health :: bool
  sp_playlist :: "string \<Rightarrow> error + playlist_info"
  sp_pages :: "string \<Rightarrow> (error + spotify_track option list) list"
  am_health :: bool
  am_playlist :: "string \<Rightarrow> error + playlist_info"
  am_pages :: "string \<Rightarrow> (error + apple_track list) list"

text \<open>
  The playlist name is fetched again for every track; a failure is logged and the
  playlist id is used instead.
\<close>

definition playlist_name_or_id :: "(string \<Rightarrow> error + playlist_info) \<Rightarrow> string \<Rightarrow> string" where
  "playlist_name_or_id getPlaylist playlistId =
     (case getPlaylist playlistId of Inr p \<Rightarrow> pl_name p | Inl e \<Rightarrow> playlistId)"

text \<open>\<open>processTrackData\<close> of spotifyClient.js.\<close>

definition spotify_processTrackData :: "env \<Rightarrow> spotify_track \<Rightarrow> string \<Rightarrow> track" where
  "spotify_processTrackData e t playlistId =
     (let trackData = \<lparr> source = ''Spotify'', sourceId = sp_id t, title = sp_name t,
            url = sp_url t,
            duration = (if truthy_num (sp_duration_ms t)
                        then map_option round_seconds (sp_duration_ms t) else None),
            trackNumber = sp_track_number t,
            artist = None, performedBy = None, album = None, releaseDate = None,
            isrc = None, composer = None, ttype = None, playlist = None \<rparr>;
          trackData = (case sp_artists t of
              None \<Rightarrow> trackData
            | Some names \<Rightarrow> if length names > 0
                then trackData\<lparr> artist := Some (join_comma names),
                                performedBy := Some (join_comma names) \<rparr>
                else trackData);
          trackData = (case sp_album t of
              None \<Rightarrow> trackData
            | Some a \<Rightarrow> trackData\<lparr> album := sa_name a, releaseDate := sa_release_date a \<rparr>);
          trackData = (if truthy (sp_isrc t) then trackData\<lparr> isrc := sp_isrc t \<rparr>
                       else trackData);
          trackData = trackData\<lparr> ttype := Some ''Source'' \<rparr>
      in trackData\<lparr> playlist := Some (playlist_name_or_id (sp_playlist e) playlistId) \<rparr>)"

text \<open>
  config.js ends with \<open>module.exports = { notion, spotify, appleMusic, config,
  getAllConfiguredPlaylists, requireEnv, getEnv }\<close>. Reading any other property of the
  module gives \<open>undefined\<close>, and indexing \<open>undefined\<close> throws a TypeError. Indexing one of
  the exported values by a playlist id gives \<open>undefined\<close>.
\<close>

definition config_exports :: "string list" where
  "config_exports = [''notion'', ''spotify'', ''appleMusic'', ''config'',
     ''getAllConfiguredPlaylists'', ''requireEnv'', ''getEnv'']"

definition config_index :: "string \<Rightarrow> string \<Rightarrow> error + string option" where
  "config_index prop key = (if prop \<in> set config_exports then Inr None else Inl TypeError)"

text \<open>\<open>processTrackData\<close> of appleMusicClient.js.\<close>

definition apple_processTrackData :: "env \<Rightarrow> apple_track \<Rightarrow> string \<Rightarrow> error + track" where
  "apple_processTrackData e t playlistId =
     (let trackData = \<lparr> source = ''Apple Music'', sourceId = am_id t, title = am_name t,
            url = am_url t,
            duration = (if truthy_num (am_durationInMillis t)
                        then map_option round_seconds (am_durationInMillis t) else None),
            trackNumber = am_trackNumber t,
            artist = None, performedBy = None, album = None, releaseDate = None,
            isrc = None, composer = None, ttype = None, playlist = None \<rparr>;
          trackData = (if truthy (am_artistName t)
              then trackData\<lparr> artist := am_artistName t, performedBy := am_artistName t \<rparr>
              else trackData);
          trackData = (if truthy (am_albumName t) then trackData\<lparr> album := am_albumName t \<rparr>
                       else trackData);
          trackData = (if truthy (am_releaseDate t)
              then trackData\<lparr> releaseDate := am_releaseDate t \<rparr> else trackData);
          trackData = (if truthy (am_isrc t) then trackData\<lparr> isrc := am_isrc t \<rparr>
                       else trackData);
          trackData = (if truthy (am_composerName t)
              then trackData\<lparr> composer := am_composerName t \<rparr> else trackData)
      in case config_index ''playlistTypes'' playlistId of
           Inl err \<Rightarrow> Inl err
         | Inr v \<Rightarrow>
             Inr (trackData\<lparr> ttype := Some (if truthy v then the v else ''Source''),
                    playlist := Some (playlist_name_or_id (am_playlist e) playlistId) \<rparr>))"

text \<open>
  \<open>getPlaylistTracks\<close> of the two clients: the pages are requested one after the other;
  a failed request or a failed normalization is logged and rethrown.
\<close>

fun spotify_process_items :: "env \<Rightarrow> string \<Rightarrow> spotify_track option list \<Rightarrow> track list" where
  "spotify_process_items e playlistId [] = []"
| "spotify_process_items e playlistId (None # items) = spotify_process_items e playlistId items"
| "spotify_process_items e playlistId (Some t # items) =
     (if sp_type t = ''track''
      then spotify_processTrackData e t playlistId # spotify_process_items e playlistId items
      else spotify_process_items e playlistId items)"

fun spotify_fetch_pages ::
  "env \<Rightarrow> string \<Rightarrow> (error + spotify_track option list) list \<Rightarrow> track list \<Rightarrow> error + track list"
where
  "spotify_fetch_pages e playlistId [] tracks = Inr tracks"
| "spotify_fetch_pages e playlistId (Inl err # pages) tracks = Inl err"
| "spotify_fetch_pages e playlistId (Inr items # pages) tracks =
     spotify_fetch_pages e playlistId pages (tracks @ spotify_process_items e playlistId items)"

definition spotify_getPlaylistTracks :: "env \<Rightarrow> string \<Rightarrow> error + track list" where
  "spotify_getPlaylistTracks e playlistId =
     spotify_fetch_pages e playlistId (sp_pages e playlistId) []"

fun apple_process_items :: "env \<Rightarrow> string \<Rightarrow> apple_track list \<Rightarrow> error + track list" where
  "apple_process_items e playlistId [] = Inr []"
| "apple_process_items e playlistId (t # items) =
     (if am_type t = ''songs''
      then (case apple_processTrackData e t playlistId of
              Inl err \<Rightarrow> Inl err
            | Inr trackData \<Rightarrow>
                (case apple_process_items e playlistId items of
                   Inl err \<Rightarrow> Inl err
                 | Inr rest \<Rightarrow> Inr (trackData # rest)))
      else apple_process_items e playlistId items)"

fun apple_fetch_pages ::
  "env \<Rightarrow> string \<Rightarrow> (error + apple_track list) list \<Rightarrow> track list \<Rightarrow> error + track list"
where
  "apple_fetch_pages e playlistId [] tracks = Inr tracks"
| "apple_fetch_pages e playlistId (Inl err # pages) tracks = Inl err"
| "apple_fetch_pages e playlistId (Inr items # pages) tracks =
     (case apple_process_items e playlistId items of
        Inl err \<Rightarrow> Inl err
      | Inr found \<Rightarrow> apple_fetch_pages e playlistId pages (tracks @ found))"

definition apple_getPlaylistTracks :: "env \<Rightarrow> string \<Rightarrow> error + track list" where
  "apple_getPlaylistTracks e playlistId =
     apple_fetch_pages e playlistId (am_pages e playlistId) []"

section \<open>The Notion database\<close>

text \<open>
  A page holds the values of its properties. Text properties are lists of text segments,
  of which the clients read the first one's content
  (\<open>properties[name]?.rich_text?.[0]?.text?.content\<close>).
\<close>

datatype propval =
    PTitle "string list"
  | PRichText "string list"
  | PNumber "int option"
  | PSelect "string option"
  | PMultiSelect "string list"
  | PDate "string option"
  | PUrl "string option"
  | PCheckbox bool

datatype page_id = PageId nat | DryRunId

type_synonym properties = "(string \<times> propval) list"

record page =
  page_id :: page_id
  props :: properties

text \<open>\<open>NOTION_FIELDS\<close> of schema.js.\<close>

abbreviation TRACK_TITLE :: string where "TRACK_TITLE \<equiv> ''Track Title''"
abbreviation TRACK_NUMBER :: string where "TRACK_NUMBER \<equiv> ''Track Number''"
abbreviation ALBUM :: string where "ALBUM \<equiv> ''Album''"
abbreviation ARTIST :: string where "ARTIST \<equiv> ''Artist''"
abbreviation PERFORMED_BY :: string where "PERFORMED_BY \<equiv> ''Performed By''"
abbreviation RELEASE_DATE :: string where "RELEASE_DATE \<equiv> ''Release Date''"
abbreviation DURATION :: string where "DURATION \<equiv> ''Duration''"
abbreviation ISRC_UPC :: string where "ISRC_UPC \<equiv> ''ISRC/UPC''"
abbreviation URL :: string where "URL \<equiv> ''URL''"
abbreviation PLAYLIST :: string where "PLAYLIST \<equiv> ''Playlist''"
abbreviation TYPE_FIELD :: string where "TYPE_FIELD \<equiv> ''Type''"
abbreviation REMOVED :: string where "REMOVED \<equiv> ''Removed''"
abbreviation RECORD_DATE :: string where "RECORD_DATE \<equiv> ''Record Date''"
abbreviation COMPOSER :: string where "COMPOSER \<equiv> ''Composer''"
abbreviation THEMES :: string where "THEMES \<equiv> ''Themes''"
abbreviation NOTES :: string where "NOTES \<equiv> ''Notes''"
abbreviation INSTRUMENTS :: string where "INSTRUMENTS \<equiv> ''Instruments''"
abbreviation MOOD :: string where "MOOD \<equiv> ''Mood/Keywords''"

definition rich_text_content :: "page \<Rightarrow> string \<Rightarrow> string option" where
  "rich_text_content p name =
     (case map_of (props p) name of Some (PRichText (seg # segs)) \<Rightarrow> Some seg | _ \<Rightarrow> None)"

definition title_content :: "page \<Rightarrow> string \<Rightarrow> string option" where
  "title_content p name =
     (case map_of (props p) name of Some (PTitle (seg # segs)) \<Rightarrow> Some seg | _ \<Rightarrow> None)"

definition select_name :: "page \<Rightarrow> string \<Rightarrow> string option" where
  "select_name p name =
     (case map_of (props p) name of Some (PSelect (Some n)) \<Rightarrow> Some n | _ \<Rightarrow> None)"

definition checkbox_value :: "page \<Rightarrow> string \<Rightarrow> bool" where
  "checkbox_value p name =
     (case map_of (props p) name of Some (PCheckbox b) \<Rightarrow> b | _ \<Rightarrow> False)"

text \<open>
  The database is an external service. It is modelled on the interface the spec gives it:
  a query returns the matching pages newest-created first, \<open>contains\<close> is case-sensitive
  substring containment in the stored text, a created page gets a fresh id, an update
  overwrites the properties it names and leaves the others, and pages are never deleted.
  Any request may fail: \<open>sink_faults\<close> schedules, request by request, whether the next
  one throws (an exhausted schedule means no further failure). A failed request changes
  nothing.
\<close>

record sink =
  sink_pages :: "page list"
  sink_next_id :: nat
  sink_faults :: "bool list"

datatype nfilter =
    RichTextContains string string
  | TitleContains string string
  | CheckboxEquals string bool

fun matches :: "nfilter \<Rightarrow> page \<Rightarrow> bool" where
  "matches (RichTextContains name v) p =
     (case map_of (props p) name of
        Some (PRichText segs) \<Rightarrow> str_includes (concat segs) v | _ \<Rightarrow> False)"
| "matches (TitleContains name v) p =
     (case map_of (props p) name of
        Some (PTitle segs) \<Rightarrow> str_includes (concat segs) v | _ \<Rightarrow> False)"
| "matches (CheckboxEquals name b) p = (checkbox_value p name = b)"

definition take_fault :: "sink \<Rightarrow> bool \<times> sink" where
  "take_fault s =
     (case sink_faults s of [] \<Rightarrow> (False, s) | f # fs \<Rightarrow> (f, s\<lparr> sink_faults := fs \<rparr>))"

definition notion_databases_query :: "nfilter \<Rightarrow> sink \<Rightarrow> (error + page list) \<times> sink" where
  "notion_databases_query flt s =
     (let (failed, s') = take_fault s
      in if failed then (Inl ApiError, s')
         else (Inr (filter (matches flt) (sink_pages s')), s'))"

definition notion_pages_create :: "properties \<Rightarrow> sink \<Rightarrow> (error + page) \<times> sink" where
  "notion_pages_create properties s =
     (let (failed, s') = take_fault s
      in if failed then (Inl ApiError, s')
         else (let p = \<lparr> page_id = PageId (sink_next_id s'), props = properties \<rparr>
               in (Inr p, s'\<lparr> sink_pages := p # sink_pages s',
                               sink_next_id := Suc (sink_next_id s') \<rparr>)))"

fun set_prop :: "string \<Rightarrow> propval \<Rightarrow> properties \<Rightarrow> properties" where
  "set_prop name v [] = [(name, v)]"
| "set_prop name v ((name', v') # ps) =
     (if name' = name then (name, v) # ps else (name', v') # set_prop name v ps)"

fun overwrite_props :: "properties \<Rightarrow> properties \<Rightarrow> properties" where
  "overwrite_props [] old = old"
| "overwrite_props ((name, v) # new) old = overwrite_props new (set_prop name v old)"

definition update_page :: "page_id \<Rightarrow> properties \<Rightarrow> page \<Rightarrow> page" where
  "update_page pid properties p =
     (if page_id p = pid then p\<lparr> props := overwrite_props properties (props p) \<rparr> else p)"

definition notion_pages_update ::
  "page_id \<Rightarrow> properties \<Rightarrow> sink \<Rightarrow> (error + page) \<times> sink" where
  "notion_pages_update pid properties s =
     (let (failed, s') = take_fault s
      in if failed then (Inl ApiError, s')
         else (case find (\<lambda>p. page_id p = pid) (sink_pages s') of
                 None \<Rightarrow> (Inl ApiError, s')
               | Some p \<Rightarrow>
                   (Inr (update_page pid properties p),
                    s'\<lparr> sink_pages := map (update_page pid properties) (sink_pages s') \<rparr>)))"

section \<open>Configuration (config.js)\<close>

text \<open>
  The playlist ids and the Apple Music user token are read with \<open>getEnv\<close>, whose default
  is the empty string; \<open>dryRun\<close> is the flag \<open>config.config.dryRun\<close>.
\<close>

record config =
  dryRun :: bool
  spotify_source_id :: string
  spotify_temp_id :: string
  appleMusic_source_id :: string
  appleMusic_temp_id :: string
  appleMusic_userToken :: string

datatype service = Spotify | AppleMusic

record playlist_cfg =
  pl_service :: service
  pl_key :: string
  pl_id :: string
  pl_type :: string

definition getAllConfiguredPlaylists :: "config \<Rightarrow> playlist_cfg list" where
  "getAllConfiguredPlaylists cfg =
     filter (\<lambda>p. pl_id p \<noteq> [])
       [\<lparr> pl_service = Spotify, pl_key = ''source'', pl_id = spotify_source_id cfg,
           pl_type = ''Source'' \<rparr>,
        \<lparr> pl_service = Spotify, pl_key = ''temp'', pl_id = spotify_temp_id cfg,
           pl_type = ''Score'' \<rparr>]
     @ filter (\<lambda>p. pl_id p \<noteq> [] \<and> appleMusic_userToken cfg \<noteq> [])
       [\<lparr> pl_service = AppleMusic, pl_key = ''source'', pl_id = appleMusic_source_id cfg,
           pl_type = ''Source'' \<rparr>,
        \<lparr> pl_service = AppleMusic, pl_key = ''temp'', pl_id = appleMusic_temp_id cfg,
           pl_type = ''Score'' \<rparr>]"

section \<open>Property formatting (schema.js)\<close>

definition digit_char :: "nat \<Rightarrow> char" where
  "digit_char d = char_of (48 + d)"

fun show_nat :: "nat \<Rightarrow> string" where
  "show_nat n = (if n < 10 then [digit_char n] else show_nat (n div 10) @ [digit_char (n mod 10)])"

declare show_nat.simps [simp del]

definition show_int :: "int \<Rightarrow> string" where
  "show_int i = (if i < 0 then CHR ''-'' # show_nat (nat (- i)) else show_nat (nat i))"

text \<open>The remainder operator \<open>%\<close> takes the sign of the dividend.\<close>

definition js_rem :: "int \<Rightarrow> int \<Rightarrow> int" where
  "js_rem a b = (if a < 0 then - ((- a) mod b) else a mod b)"

definition padStart2 :: "string \<Rightarrow> string" where
  "padStart2 s = replicate (2 - length s) CHR ''0'' @ s"

definition formatRichText :: "string option \<Rightarrow> string list" where
  "formatRichText text = (if \<not> truthy text then [] else [the text])"

definition formatTitle :: "string option \<Rightarrow> string list" where
  "formatTitle text = (if \<not> truthy text then [] else [the text])"

definition formatDuration :: "int option \<Rightarrow> string option" where
  "formatDuration seconds =
     (if \<not> truthy_num seconds then None
      else Some (show_int (the seconds div 60) @ '':''
                 @ padStart2 (show_int (js_rem (the seconds) 60))))"

text \<open>
  \<open>parseInt\<close> of the text before the first hyphen. The catalogues deliver dates as
  \<open>YYYY\<close>, \<open>YYYY-MM\<close> or \<open>YYYY-MM-DD\<close>: the leading decimal digits are read, and a
  text that starts with none gives \<open>NaN\<close>, returned as \<open>null\<close>. (The white space, sign
  and \<open>0x\<close> prefixes \<open>parseInt\<close> also accepts are not modelled.)
\<close>

definition is_digit :: "char \<Rightarrow> bool" where
  "is_digit c = (let n = (of_char c :: nat) in 48 \<le> n \<and> n \<le> 57)"

definition parse_digits :: "string \<Rightarrow> int" where
  "parse_digits ds = foldl (\<lambda>acc c. 10 * acc + (int (of_char c) - 48)) 0 ds"

definition formatReleaseYear :: "string option \<Rightarrow> int option" where
  "formatReleaseYear date =
     (if \<not> truthy date then None
      else (let year = takeWhile (\<lambda>c. c \<noteq> CHR ''-'') (the date);
                ds = takeWhile is_digit year
            in if ds = [] then None else Some (parse_digits ds)))"

definition formatSelect :: "string option \<Rightarrow> string option" where
  "formatSelect v = (if \<not> truthy v then None else v)"

definition formatUrl :: "string option \<Rightarrow> string option" where
  "formatUrl v = (if \<not> truthy v then None else v)"

definition formatNumber :: "int option \<Rightarrow> int option" where
  "formatNumber n = n"

definition formatCheckbox :: "bool \<Rightarrow> bool" where
  "formatCheckbox b = b"

section \<open>The Notion client (notionClient.js)\<close>

text \<open>
  \<open>buildTrackProperties\<close>. Its second parameter \<open>isUpdate\<close> is never read. The test
  \<open>duration !== undefined\<close> holds for every normalized track, whose \<open>duration\<close> is a
  number or \<open>null\<close>; \<open>trackNumber\<close> is \<open>undefined\<close> when the catalogue gave none.
\<close>

definition buildTrackProperties :: "track \<Rightarrow> properties" where
  "buildTrackProperties trackData =
     (if title trackData \<noteq> []
        then [(TRACK_TITLE, PTitle (formatTitle (Some (title trackData))))] else [])
     @ (if trackNumber trackData \<noteq> None
        then [(TRACK_NUMBER, PNumber (formatNumber (trackNumber trackData)))] else [])
     @ (if truthy (album trackData)
        then [(ALBUM, PRichText (formatRichText (album trackData)))] else [])
     @ (if truthy (artist trackData)
        then [(ARTIST, PRichText (formatRichText (artist trackData)))] else [])
     @ (if truthy (performedBy trackData)
        then [(PERFORMED_BY, PRichText (formatRichText (performedBy trackData)))] else [])
     @ (if truthy (releaseDate trackData)
        then [(RELEASE_DATE, PNumber (formatReleaseYear (releaseDate trackData)))] else [])
     @ [(DURATION, PRichText (formatRichText (formatDuration (duration trackData))))]
     @ (if truthy (isrc trackData)
        then [(ISRC_UPC, PRichText (formatRichText (isrc trackData)))] else [])
     @ (if truthy (url trackData)
        then [(URL, PUrl (formatUrl (url trackData)))] else [])
     @ (if truthy (playlist trackData)
        then [(PLAYLIST, PSelect (formatSelect (playlist trackData)))] else [])
     @ (if truthy (ttype trackData)
        then [(TYPE_FIELD, PSelect (formatSelect (ttype trackData)))] else [])
     @ (if truthy (composer trackData)
        then [(COMPOSER, PRichText (formatRichText (composer trackData)))] else [])
     @ [(REMOVED, PCheckbox (formatCheckbox False))]"

text \<open>\<open>queryDatabase\<close> logs a failure and rethrows it.\<close>

definition queryDatabase :: "nfilter \<Rightarrow> sink \<Rightarrow> (error + page list) \<times> sink" where
  "queryDatabase filters s =
     (case notion_databases_query filters s of
        (Inr results, s') \<Rightarrow> (Inr results, s')
      | (Inl err, s') \<Rightarrow> (Inl err, s'))"

definition findTrackByIsrc :: "string option \<Rightarrow> sink \<Rightarrow> page option \<times> sink" where
  "findTrackByIsrc isrc' s =
     (if \<not> truthy isrc' then (None, s)
      else (case queryDatabase (RichTextContains ISRC_UPC (the isrc')) s of
              (Inr results, s') \<Rightarrow>
                (case results of r # rs \<Rightarrow> (Some r, s') | [] \<Rightarrow> (None, s'))
            | (Inl err, s') \<Rightarrow> (None, s')))"

definition artist_matches :: "(string \<Rightarrow> string) \<Rightarrow> string \<Rightarrow> page \<Rightarrow> bool" where
  "artist_matches toLowerCase artist' result =
     (let existingArtist = rich_text_content result ARTIST
      in truthy existingArtist
         \<and> str_includes (toLowerCase (the existingArtist)) (toLowerCase artist'))"

definition findTrackByTitleArtist ::
  "(string \<Rightarrow> string) \<Rightarrow> string \<Rightarrow> string option \<Rightarrow> sink \<Rightarrow> page option \<times> sink" where
  "findTrackByTitleArtist toLowerCase title' artist' s =
     (if title' = [] \<or> \<not> truthy artist' then (None, s)
      else (case queryDatabase (TitleContains TRACK_TITLE title') s of
              (Inr results, s') \<Rightarrow> (find (artist_matches toLowerCase (the artist')) results, s')
            | (Inl err, s') \<Rightarrow> (None, s')))"

definition createTrack :: "config \<Rightarrow> track \<Rightarrow> sink \<Rightarrow> (error + page) \<times> sink" where
  "createTrack cfg trackData s =
     (let properties = buildTrackProperties trackData
      in if dryRun cfg then (Inr \<lparr> page_id = DryRunId, props = properties \<rparr>, s)
         else notion_pages_create properties s)"

definition updateTrack :: "config \<Rightarrow> page_id \<Rightarrow> track \<Rightarrow> sink \<Rightarrow> (error + page) \<times> sink" where
  "updateTrack cfg pageId trackData s =
     (let properties = buildTrackProperties trackData
      in if dryRun cfg then (Inr \<lparr> page_id = pageId, props = properties \<rparr>, s)
         else notion_pages_update pageId properties s)"

definition markTrackRemoved :: "config \<Rightarrow> page_id \<Rightarrow> sink \<Rightarrow> (error + page) \<times> sink" where
  "markTrackRemoved cfg pageId s =
     (if dryRun cfg then (Inr \<lparr> page_id = pageId, props = [] \<rparr>, s)
      else notion_pages_update pageId [(REMOVED, PCheckbox True)] s)"

section \<open>The sync orchestrator\<close>

datatype sync_result = Created | Updated | Skipped

text \<open>
  The lookup that opens \<open>syncTrackToNotion\<close> (the spec's \<open>resolve\<close>): by ISRC when the
  track has one, then by title and artist.
\<close>

definition resolve :: "(string \<Rightarrow> string) \<Rightarrow> track \<Rightarrow> sink \<Rightarrow> page option \<times> sink" where
  "resolve toLowerCase trackData s =
     (let (existingTrack, s1) =
            (if truthy (isrc trackData) then findTrackByIsrc (isrc trackData) s else (None, s))
      in if existingTrack = None
         then findTrackByTitleArtist toLowerCase (title trackData) (artist trackData) s1
         else (existingTrack, s1))"

text \<open>
  \<open>syncTrackToNotion\<close> of the orchestrator that takes its playlists from
  \<open>getAllConfiguredPlaylists\<close>: an existing page is skipped, to preserve manual edits.
\<close>

definition syncTrackToNotion :: "(string \<Rightarrow> string) \<Rightarrow> config \<Rightarrow> track \<Rightarrow> sink \<Rightarrow> (error + sync_result) \<times> sink" where
  "syncTrackToNotion toLowerCase cfg trackData s =
     (case resolve toLowerCase trackData s of
        (Some existingTrack, s') \<Rightarrow> (Inr Skipped, s')
      | (None, s') \<Rightarrow>
          (case createTrack cfg trackData s' of
             (Inr newPage, s'') \<Rightarrow> (Inr Created, s'')
           | (Inl err, s'') \<Rightarrow> (Inl err, s'')))"

text \<open>
  The repository holds a second copy of the orchestrator, written for a single playlist
  per service. Its \<open>syncTrackToNotion\<close> updates an existing page instead.
\<close>

definition syncTrackToNotion_updating ::
  "(string \<Rightarrow> string) \<Rightarrow> config \<Rightarrow> track \<Rightarrow> sink \<Rightarrow> (error + sync_result) \<times> sink" where
  "syncTrackToNotion_updating toLowerCase cfg trackData s =
     (case resolve toLowerCase trackData s of
        (Some existingTrack, s') \<Rightarrow>
          (case updateTrack cfg (page_id existingTrack) trackData s' of
             (Inr updatedPage, s'') \<Rightarrow> (Inr Updated, s'')
           | (Inl err, s'') \<Rightarrow> (Inl err, s''))
      | (None, s') \<Rightarrow>
          (case createTrack cfg trackData s' of
             (Inr newPage, s'') \<Rightarrow> (Inr Created, s'')
           | (Inl err, s'') \<Rightarrow> (Inl err, s'')))"

record results =
  r_added :: nat
  r_updated :: nat
  r_skipped :: nat
  r_errors :: nat
  r_tracks :: "(string \<times> sync_result) list"

definition empty_results :: results where
  "empty_results = \<lparr> r_added = 0, r_updated = 0, r_skipped = 0, r_errors = 0, r_tracks = [] \<rparr>"

definition record_result :: "string \<Rightarrow> sync_result \<Rightarrow> results \<Rightarrow> results" where
  "record_result name result res =
     (let res = res\<lparr> r_tracks := r_tracks res @ [(name, result)] \<rparr>
      in case result of
           Created \<Rightarrow> res\<lparr> r_added := r_added res + 1 \<rparr>
         | Updated \<Rightarrow> res\<lparr> r_updated := r_updated res + 1 \<rparr>
         | Skipped \<Rightarrow> res\<lparr> r_skipped := r_skipped res + 1 \<rparr>)"

text \<open>
  The loop over the tracks of a playlist, the same in \<open>syncSpotifyPlaylist\<close> and
  \<open>syncAppleMusicPlaylist\<close>: the playlist type overrides the track's \<open>type\<close>, a thrown
  error is counted and the loop goes on. (The pause of 100 ms after each track is not
  modelled.)
\<close>

fun sync_tracks :: "(string \<Rightarrow> string) \<Rightarrow> config \<Rightarrow> string \<Rightarrow> track list \<Rightarrow> results \<Rightarrow> sink \<Rightarrow> results \<times> sink" where
  "sync_tracks toLowerCase cfg playlistType [] res s = (res, s)"
| "sync_tracks toLowerCase cfg playlistType (t # ts) res s =
     (case syncTrackToNotion toLowerCase cfg (t\<lparr> ttype := Some playlistType \<rparr>) s of
        (Inr result, s') \<Rightarrow> sync_tracks toLowerCase cfg playlistType ts (record_result (title t) result res) s'
      | (Inl err, s') \<Rightarrow> sync_tracks toLowerCase cfg playlistType ts (res\<lparr> r_errors := r_errors res + 1 \<rparr>) s')"

definition syncSpotifyPlaylist ::
  "(string \<Rightarrow> string) \<Rightarrow> env \<Rightarrow> config \<Rightarrow> string \<Rightarrow> string \<Rightarrow> sink \<Rightarrow> (error + results) \<times> sink" where
  "syncSpotifyPlaylist toLowerCase e cfg playlistId playlistType s =
     (if \<not> sp_health e then (Inl ServiceUnavailable, s)
      else (case sp_playlist e playlistId of
              Inl err \<Rightarrow> (Inl err, s)
            | Inr playlist' \<Rightarrow>
                (case spotify_getPlaylistTracks e playlistId of
                   Inl err \<Rightarrow> (Inl err, s)
                 | Inr tracks \<Rightarrow>
                     (let (res, s') = sync_tracks toLowerCase cfg playlistType tracks empty_results s
                      in (Inr res, s')))))"

definition syncAppleMusicPlaylist ::
  "(string \<Rightarrow> string) \<Rightarrow> env \<Rightarrow> config \<Rightarrow> string \<Rightarrow> string \<Rightarrow> sink \<Rightarrow> (error + results) \<times> sink" where
  "syncAppleMusicPlaylist toLowerCase e cfg playlistId playlistType s =
     (if \<not> am_health e then (Inl ServiceUnavailable, s)
      else (case am_playlist e playlistId of
              Inl err \<Rightarrow> (Inl err, s)
            | Inr playlist' \<Rightarrow>
                (case apple_getPlaylistTracks e playlistId of
                   Inl err \<Rightarrow> (Inl err, s)
                 | Inr tracks \<Rightarrow>
                     (let (res, s') = sync_tracks toLowerCase cfg playlistType tracks empty_results s
                      in (Inr res, s')))))"

text \<open>
  The track loop of the second copy of the orchestrator: no playlist type, and only
  \<open>created\<close> and \<open>updated\<close> are counted.
\<close>

fun sync_tracks_updating :: "(string \<Rightarrow> string) \<Rightarrow> config \<Rightarrow> track list \<Rightarrow> results \<Rightarrow> sink \<Rightarrow> results \<times> sink" where
  "sync_tracks_updating toLowerCase cfg [] res s = (res, s)"
| "sync_tracks_updating toLowerCase cfg (t # ts) res s =
     (case syncTrackToNotion_updating toLowerCase cfg t s of
        (Inr result, s') \<Rightarrow>
          sync_tracks_updating toLowerCase cfg ts
            (let res = res\<lparr> r_tracks := r_tracks res @ [(title t, result)] \<rparr>
             in if result = Created then res\<lparr> r_added := r_added res + 1 \<rparr>
                else if result = Updated then res\<lparr> r_updated := r_updated res + 1 \<rparr>
                else res) s'
      | (Inl err, s') \<Rightarrow> sync_tracks_updating toLowerCase cfg ts (res\<lparr> r_errors := r_errors res + 1 \<rparr>) s')"

record counts =
  n_added :: nat
  n_updated :: nat
  n_skipped :: nat
  n_errors :: nat

record totals =
  t_processed :: nat
  t_successful :: nat
  t_skipped :: nat
  t_errors :: nat

text \<open>The summary of \<open>syncAllPlaylists\<close>, without its wall-clock \<open>duration\<close>.\<close>

record summary =
  sum_spotify :: counts
  sum_appleMusic :: counts
  sum_total :: totals

definition empty_summary :: summary where
  "empty_summary =
     \<lparr> sum_spotify = \<lparr> n_added = 0, n_updated = 0, n_skipped = 0, n_errors = 0 \<rparr>,
       sum_appleMusic = \<lparr> n_added = 0, n_updated = 0, n_skipped = 0, n_errors = 0 \<rparr>,
       sum_total = \<lparr> t_processed = 0, t_successful = 0, t_skipped = 0, t_errors = 0 \<rparr> \<rparr>"

definition add_counts :: "results \<Rightarrow> counts \<Rightarrow> counts" where
  "add_counts r c =
     c\<lparr> n_added := n_added c + r_added r, n_updated := n_updated c + r_updated r,
        n_skipped := n_skipped c + r_skipped r, n_errors := n_errors c + r_errors r \<rparr>"

definition accumulate :: "service \<Rightarrow> results \<Rightarrow> summary \<Rightarrow> summary" where
  "accumulate svc r summ =
     (let summ = (case svc of
              Spotify \<Rightarrow> summ\<lparr> sum_spotify := add_counts r (sum_spotify summ) \<rparr>
            | AppleMusic \<Rightarrow> summ\<lparr> sum_appleMusic := add_counts r (sum_appleMusic summ) \<rparr>);
          t = sum_total summ
      in summ\<lparr> sum_total := t\<lparr> t_processed := t_processed t + (r_added r + r_updated r),
                                  t_successful := t_successful t + (r_added r + r_updated r),
                                  t_skipped := t_skipped t + r_skipped r,
                                  t_errors := t_errors t + r_errors r \<rparr> \<rparr>)"

definition playlist_failed :: "service \<Rightarrow> summary \<Rightarrow> summary" where
  "playlist_failed svc summ =
     (let summ = (case svc of
              Spotify \<Rightarrow>
                summ\<lparr> sum_spotify := (sum_spotify summ)\<lparr> n_errors := n_errors (sum_spotify summ) + 1 \<rparr> \<rparr>
            | AppleMusic \<Rightarrow>
                summ\<lparr> sum_appleMusic :=
                  (sum_appleMusic summ)\<lparr> n_errors := n_errors (sum_appleMusic summ) + 1 \<rparr> \<rparr>)
      in summ\<lparr> sum_total := (sum_total summ)\<lparr> t_errors := t_errors (sum_total summ) + 1 \<rparr> \<rparr>)"

fun sync_playlists :: "(string \<Rightarrow> string) \<Rightarrow> env \<Rightarrow> config \<Rightarrow> playlist_cfg list \<Rightarrow> summary \<Rightarrow> sink \<Rightarrow> summary \<times> sink" where
  "sync_playlists toLowerCase e cfg [] summ s = (summ, s)"
| "sync_playlists toLowerCase e cfg (p # ps) summ s =
     (case (case pl_service p of
              Spotify \<Rightarrow> syncSpotifyPlaylist toLowerCase e cfg (pl_id p) (pl_type p) s
            | AppleMusic \<Rightarrow> syncAppleMusicPlaylist toLowerCase e cfg (pl_id p) (pl_type p) s) of
        (Inr result, s') \<Rightarrow> sync_playlists toLowerCase e cfg ps (accumulate (pl_service p) result summ) s'
      | (Inl err, s') \<Rightarrow> sync_playlists toLowerCase e cfg ps (playlist_failed (pl_service p) summ) s')"

definition syncAllPlaylists :: "(string \<Rightarrow> string) \<Rightarrow> env \<Rightarrow> config \<Rightarrow> sink \<Rightarrow> (error + summary) \<times> sink" where
  "syncAllPlaylists toLowerCase e cfg s =
     (let (summ, s') = sync_playlists toLowerCase e cfg (getAllConfiguredPlaylists cfg) empty_summary s
      in (Inr summ, s'))"

section \<open>Cleanup of removed tracks and the full sync\<close>

record cleanup_results =
  c_marked :: nat
  c_errors :: nat

text \<open>
  The tracks now in the configured playlists; a playlist whose tracks cannot be fetched
  is logged and contributes nothing.
\<close>

fun collect_current ::
  "env \<Rightarrow> playlist_cfg list \<Rightarrow> track list \<Rightarrow> track list \<Rightarrow> track list \<times> track list" where
  "collect_current e [] currentSpotifyTracks currentAppleTracks =
     (currentSpotifyTracks, currentAppleTracks)"
| "collect_current e (p # ps) currentSpotifyTracks currentAppleTracks =
     (case pl_service p of
        Spotify \<Rightarrow>
          (case spotify_getPlaylistTracks e (pl_id p) of
             Inr found \<Rightarrow> collect_current e ps (currentSpotifyTracks @ found) currentAppleTracks
           | Inl err \<Rightarrow> collect_current e ps currentSpotifyTracks currentAppleTracks)
      | AppleMusic \<Rightarrow>
          (case apple_getPlaylistTracks e (pl_id p) of
             Inr found \<Rightarrow> collect_current e ps currentSpotifyTracks (currentAppleTracks @ found)
           | Inl err \<Rightarrow> collect_current e ps currentSpotifyTracks currentAppleTracks))"

text \<open>
  The set \<open>currentTrackIds\<close>, kept as the list of the added keys. A track without an
  \<open>artist\<close> makes \<open>track.artist.toLowerCase()\<close> throw a TypeError.
\<close>

definition title_artist_key :: "(string \<Rightarrow> string) \<Rightarrow> string \<Rightarrow> string \<Rightarrow> string" where
  "title_artist_key toLowerCase t a = toLowerCase t @ '':'' @ toLowerCase a"

fun add_track_ids :: "(string \<Rightarrow> string) \<Rightarrow> track list \<Rightarrow> string list \<Rightarrow> error + string list" where
  "add_track_ids toLowerCase [] ids = Inr ids"
| "add_track_ids toLowerCase (t # ts) ids =
     (let ids = (if truthy (isrc t) then ids @ [the (isrc t)] else ids)
      in case artist t of
           None \<Rightarrow> Inl TypeError
         | Some a \<Rightarrow> add_track_ids toLowerCase ts (ids @ [title_artist_key toLowerCase (title t) a]))"

definition is_manual_source :: "string option \<Rightarrow> bool" where
  "is_manual_source src = (src = Some ''Link Only'' \<or> src = Some ''File Upload'')"

definition track_exists :: "(string \<Rightarrow> string) \<Rightarrow> string list \<Rightarrow> page \<Rightarrow> bool" where
  "track_exists toLowerCase currentTrackIds notionTrack =
     (let isrc' = rich_text_content notionTrack ''ISRC/UPC'';
          title' = title_content notionTrack ''Track Title'';
          artist' = rich_text_content notionTrack ''Artist'';
          trackExists = (truthy isrc' \<and> the isrc' \<in> set currentTrackIds)
      in if \<not> trackExists \<and> truthy title' \<and> truthy artist'
         then title_artist_key toLowerCase (the title') (the artist') \<in> set currentTrackIds
         else trackExists)"

text \<open>The body of the loop over the pages that are not marked removed.\<close>

definition cleanup_record ::
  "(string \<Rightarrow> string) \<Rightarrow> config \<Rightarrow> string list \<Rightarrow> page \<Rightarrow> cleanup_results \<Rightarrow> sink \<Rightarrow> cleanup_results \<times> sink" where
  "cleanup_record toLowerCase cfg currentTrackIds notionTrack res s =
     (if is_manual_source (select_name notionTrack ''Source'') then (res, s)
      else if \<not> track_exists toLowerCase currentTrackIds notionTrack
      then (case markTrackRemoved cfg (page_id notionTrack) s of
              (Inr marked, s') \<Rightarrow> (res\<lparr> c_marked := c_marked res + 1 \<rparr>, s')
            | (Inl err, s') \<Rightarrow> (res\<lparr> c_errors := c_errors res + 1 \<rparr>, s'))
      else (res, s))"

fun cleanup_records ::
  "(string \<Rightarrow> string) \<Rightarrow> config \<Rightarrow> string list \<Rightarrow> page list \<Rightarrow> cleanup_results \<Rightarrow> sink \<Rightarrow> cleanup_results \<times> sink" where
  "cleanup_records toLowerCase cfg currentTrackIds [] res s = (res, s)"
| "cleanup_records toLowerCase cfg currentTrackIds (notionTrack # rest) res s =
     (let (res', s') = cleanup_record toLowerCase cfg currentTrackIds notionTrack res s
      in cleanup_records toLowerCase cfg currentTrackIds rest res' s')"

definition cleanupRemovedTracks :: "(string \<Rightarrow> string) \<Rightarrow> env \<Rightarrow> config \<Rightarrow> sink \<Rightarrow> (error + cleanup_results) \<times> sink" where
  "cleanupRemovedTracks toLowerCase e cfg s =
     (case queryDatabase (CheckboxEquals ''Removed'' False) s of
        (Inl err, s') \<Rightarrow> (Inl err, s')
      | (Inr allNotionTracks, s') \<Rightarrow>
          (let (currentSpotifyTracks, currentAppleTracks) =
                 collect_current e (getAllConfiguredPlaylists cfg) [] []
           in case add_track_ids toLowerCase (currentSpotifyTracks @ currentAppleTracks) [] of
                Inl err \<Rightarrow> (Inl err, s')
              | Inr currentTrackIds \<Rightarrow>
                  (let (res, s'') = cleanup_records toLowerCase cfg currentTrackIds allNotionTracks
                                      \<lparr> c_marked = 0, c_errors = 0 \<rparr> s'
                   in (Inr res, s''))))"

text \<open>The result of \<open>fullSync\<close>, without its wall-clock \<open>totalDuration\<close>.\<close>

record full_results =
  fs_sync :: summary
  fs_cleanup :: cleanup_results
  fs_success :: bool

definition fullSync :: "(string \<Rightarrow> string) \<Rightarrow> env \<Rightarrow> config \<Rightarrow> sink \<Rightarrow> (error + full_results) \<times> sink" where
  "fullSync toLowerCase e cfg s =
     (case syncAllPlaylists toLowerCase e cfg s of
        (Inl err, s1) \<Rightarrow> (Inl err, s1)
      | (Inr syncResults, s1) \<Rightarrow>
          (case cleanupRemovedTracks toLowerCase e cfg s1 of
             (Inl err, s2) \<Rightarrow> (Inl err, s2)
           | (Inr cleanupResults, s2) \<Rightarrow>
               (Inr \<lparr> fs_sync = syncResults, fs_cleanup = cleanupResults, fs_success = True \<rparr>,
                s2)))"

section \<open>Example data\<close>

text \<open>A catalogue snapshot, raw tracks and sinks used to run the definitions.\<close>

text \<open>
  A lowercasing function for the examples: it lowers the ASCII letters and keeps every
  other byte, as \<open>toLowerCase\<close> does on ASCII text.
\<close>

definition ascii_lower_char :: "char \<Rightarrow> char" where
  "ascii_lower_char c =
     (let n = (of_char c :: nat) in if 65 \<le> n \<and> n \<le> 90 then char_of (n + 32) else c)"

definition ascii_toLowerCase :: "string \<Rightarrow> string" where
  "ascii_toLowerCase s = map ascii_lower_char s"

definition demo_env :: env where
  "demo_env =
     \<lparr> sp_health = True,
       sp_playlist = (\<lambda>pid. Inr \<lparr> pl_name = ''Mix'', pl_trackCount = 3 \<rparr>),
       sp_pages = (\<lambda>pid. []),
       am_health = True,
       am_playlist = (\<lambda>pid. Inr \<lparr> pl_name = ''Apple Mix'', pl_trackCount = 1 \<rparr>),
       am_pages = (\<lambda>pid. [Inr []]) \<rparr>"

definition raw_spotify :: "string \<Rightarrow> int option \<Rightarrow> spotify_track" where
  "raw_spotify name ms =
     \<lparr> sp_type = ''track'', sp_id = ''id-'' @ name, sp_name = name, sp_url = None,
       sp_duration_ms = ms, sp_track_number = Some 1, sp_artists = Some [''Artist''],
       sp_album = None, sp_isrc = None \<rparr>"

definition raw_apple :: "string \<Rightarrow> apple_track" where
  "raw_apple name =
     \<lparr> am_type = ''songs'', am_id = ''id-'' @ name, am_name = name, am_url = None,
       am_durationInMillis = Some 180000, am_trackNumber = Some 1,
       am_artistName = Some ''Artist'', am_albumName = None, am_releaseDate = None,
       am_isrc = Some ''USRC17607839'', am_composerName = None \<rparr>"

definition apple_env :: env where
  "apple_env = demo_env\<lparr> am_pages := (\<lambda>pid. [Inr [raw_apple ''Song'']]) \<rparr>"

definition live_config :: config where
  "live_config =
     \<lparr> dryRun = False, spotify_source_id = ''sp1'', spotify_temp_id = [],
       appleMusic_source_id = [], appleMusic_temp_id = [], appleMusic_userToken = [] \<rparr>"

definition empty_sink :: sink where
  "empty_sink = \<lparr> sink_pages = [], sink_next_id = 0, sink_faults = [] \<rparr>"

definition mk_track :: "string \<Rightarrow> string option \<Rightarrow> string option \<Rightarrow> track" where
  "mk_track name code by =
     \<lparr> source = ''Spotify'', sourceId = ''id-'' @ name, title = name, url = None,
       duration = Some 200, trackNumber = None, artist = by, performedBy = by,
       album = None, releaseDate = None, isrc = code, composer = None,
       ttype = Some ''Source'', playlist = Some ''Mix'' \<rparr>"

definition page_of :: "nat \<Rightarrow> track \<Rightarrow> page" where
  "page_of n t = \<lparr> page_id = PageId n, props = buildTrackProperties t \<rparr>"

definition sink_with :: "page list \<Rightarrow> bool list \<Rightarrow> sink" where
  "sink_with ps fs = \<lparr> sink_pages = ps, sink_next_id = length ps, sink_faults = fs \<rparr>"

definition unnamed_artist_raw :: spotify_track where
  "unnamed_artist_raw = (raw_spotify ''Song'' (Some 180000))\<lparr> sp_artists := Some [[]] \<rparr>"

definition ann_page :: page where
  "ann_page = page_of 0 (mk_track ''Song'' (Some ''US1'') (Some ''Ann''))"

text \<open>
  A track is resolvable against a list of pages when one of the two lookups finds a page
  in it.
\<close>

definition resolvable :: "(string \<Rightarrow> string) \<Rightarrow> track \<Rightarrow> page list \<Rightarrow> bool" where
  "resolvable toLowerCase t ps =
     ((truthy (isrc t) \<and> (\<exists>p \<in> set ps. matches (RichTextContains ISRC_UPC (the (isrc t))) p))
      \<or> (title t \<noteq> [] \<and> truthy (artist t)
          \<and> (\<exists>p \<in> set ps. matches (TitleContains TRACK_TITLE (title t)) p
                          \<and> artist_matches toLowerCase (the (artist t)) p)))"

definition raw_song :: "string \<Rightarrow> string option \<Rightarrow> string list option \<Rightarrow> spotify_track" where
  "raw_song name code artists =
     (raw_spotify name (Some 180000))\<lparr> sp_isrc := code, sp_artists := artists \<rparr>"

definition playlist_env :: "spotify_track list \<Rightarrow> env" where
  "playlist_env raws = demo_env\<lparr> sp_pages := (\<lambda>pid. [Inr (map Some raws)]) \<rparr>"

definition five_tracks :: "track list" where
  "five_tracks =
     [mk_track ''A'' (Some ''US1'') (Some ''Ann''), mk_track ''B'' None (Some ''Bob''),
      mk_track ''C'' (Some ''US3'') (Some ''Cy''), mk_track ''D'' (Some ''US1'') (Some ''Dee''),
      mk_track ''E'' (Some ''US5'') (Some ''Eve'')]"

text \<open>Two sinks hold the same records: the same pages and the same next page id.\<close>

definition same_records :: "sink \<Rightarrow> sink \<Rightarrow> bool" where
  "same_records s s' = (sink_pages s' = sink_pages s \<and> sink_next_id s' = sink_next_id s)"

definition dry_config :: config where
  "dry_config = live_config\<lparr> dryRun := True \<rparr>"

definition two_songs :: "spotify_track list" where
  "two_songs = [raw_song ''One'' (Some ''US1'') (Some [''Ann'']), raw_song ''Two'' None (Some [''Bob''])]"

definition raw_track :: "string \<Rightarrow> string option \<Rightarrow> string \<Rightarrow> spotify_track" where
  "raw_track name code by =
     \<lparr> sp_type = ''track'', sp_id = ''id-'' @ name, sp_name = name, sp_url = None,
       sp_duration_ms = Some 200000, sp_track_number = None, sp_artists = Some [by],
       sp_album = None, sp_isrc = code \<rparr>"

definition five_songs :: "spotify_track list" where
  "five_songs =
     [raw_track ''A'' (Some ''US1'') ''Ann'', raw_track ''B'' None ''Bob'',
      raw_track ''C'' (Some ''US3'') ''Cy'', raw_track ''D'' (Some ''US1'') ''Dee'',
      raw_track ''E'' (Some ''US5'') ''Eve'']"

text \<open>
  A record whose Notes were filled in by hand and whose stored artist is out of date, the
  same record after an update from the track, and a playlist of three tracks of which two
  have their ISRC in the sink.
\<close>

definition noted_page :: page where
  "noted_page =
     \<lparr> page_id = PageId 0,
       props = (NOTES, PRichText [''keep''])
                 # buildTrackProperties (mk_track ''One'' (Some ''US1'') (Some ''Old Ann'')) \<rparr>"

definition updated_page :: page where
  "updated_page =
     \<lparr> page_id = PageId 0,
       props = (NOTES, PRichText [''keep''])
                 # buildTrackProperties (mk_track ''One'' (Some ''US1'') (Some ''Ann'')) \<rparr>"

definition three_songs :: "spotify_track list" where
  "three_songs =
     [raw_track ''One'' (Some ''US1'') ''Ann'', raw_track ''Two'' (Some ''US2'') ''Bob'',
      raw_track ''Three'' (Some ''US3'') ''Cy'']"

definition three_tracks :: "track list" where
  "three_tracks =
     [mk_track ''One'' (Some ''US1'') (Some ''Ann''), mk_track ''Two'' (Some ''US2'') (Some ''Bob''),
      mk_track ''Three'' (Some ''US3'') (Some ''Cy'')]"

definition two_in_sink :: sink where
  "two_in_sink = sink_with [page_of (Suc 0) (mk_track ''Two'' (Some ''US2'') (Some ''Bob'')), noted_page] []"

text \<open>The fields that \<open>NOTION_FIELDS\<close> lists as manual fields, preserved during sync.\<close>

definition manual_fields :: "string list" where
  "manual_fields = [RECORD_DATE, COMPOSER, THEMES, NOTES, INSTRUMENTS, MOOD]"



section \<open>Verified properties: the normalizers\<close>

lemma apple_processTrackData_throws: "apple_processTrackData e t playlistId = Inl TypeError"
  by (simp add: apple_processTrackData_def config_index_def config_exports_def Let_def)

lemma apple_process_items_Inr:
  "apple_process_items e pid items = Inr ts \<Longrightarrow>
     ts = [] \<and> (\<forall>t \<in> set items. am_type t \<noteq> ''songs'')"
  by (induction items arbitrary: ts) (auto simp: apple_processTrackData_throws split: if_splits)

lemma apple_fetch_pages_Inr:
  "apple_fetch_pages e pid pgs acc = Inr ts \<Longrightarrow>
     ts = acc \<and> (\<forall>items t. Inr items \<in> set pgs \<longrightarrow> t \<in> set items \<longrightarrow> am_type t \<noteq> ''songs'')"
proof (induction pgs arbitrary: acc)
  case Nil
  then show ?case by simp
next
  case (Cons pg pgs)
  show ?case
  proof (cases pg)
    case (Inl err)
    with Cons.prems show ?thesis by simp
  next
    case (Inr items)
    with Cons.prems obtain found where f: "apple_process_items e pid items = Inr found"
       and r: "apple_fetch_pages e pid pgs (acc @ found) = Inr ts"
      by (auto split: sum.splits)
    from apple_process_items_Inr[OF f] Cons.IH[OF r] Inr show ?thesis by auto
  qed
qed

lemma apple_getPlaylistTracks_Inr:
  "apple_getPlaylistTracks e pid = Inr ts \<Longrightarrow> ts = []"
  using apple_fetch_pages_Inr[of e pid "am_pages e pid" "[]" ts]
  by (simp add: apple_getPlaylistTracks_def)

text \<open>
  C10. The Apple Music normalizer reads \<open>config.playlistTypes[playlistId]\<close>, and the
  configuration module exports no \<open>playlistTypes\<close>: every call of \<open>processTrackData\<close>
  throws a TypeError, whatever the track. So a playlist page that holds a song makes
  \<open>getPlaylistTracks\<close> throw, a listing that is fetched at all is empty, and an Apple
  Music playlist sync that returns has processed no track.
\<close>

theorem apple_normalizer_always_throws:
  "apple_processTrackData e t playlistId = Inl TypeError
   \<and> (Inr items \<in> set (am_pages e playlistId) \<and> t \<in> set items \<and> am_type t = ''songs''
        \<longrightarrow> (\<exists>err. apple_getPlaylistTracks e playlistId = Inl err))
   \<and> (apple_getPlaylistTracks e playlistId = Inr ts \<longrightarrow> ts = [])
   \<and> (fst (syncAppleMusicPlaylist lc e cfg playlistId playlistType s) = Inr res
        \<longrightarrow> res = empty_results)"
proof (intro conjI impI)
  show "apple_processTrackData e t playlistId = Inl TypeError"
    by (rule apple_processTrackData_throws)
next
  assume a: "Inr items \<in> set (am_pages e playlistId) \<and> t \<in> set items \<and> am_type t = ''songs''"
  show "\<exists>err. apple_getPlaylistTracks e playlistId = Inl err"
  proof (cases "apple_getPlaylistTracks e playlistId")
    case (Inl err)
    then show ?thesis by blast
  next
    case (Inr found)
    then have "apple_fetch_pages e playlistId (am_pages e playlistId) [] = Inr found"
      by (simp add: apple_getPlaylistTracks_def)
    from apple_fetch_pages_Inr[OF this] a show ?thesis by blast
  qed
next
  assume "apple_getPlaylistTracks e playlistId = Inr ts"
  then show "ts = []" by (rule apple_getPlaylistTracks_Inr)
next
  assume a: "fst (syncAppleMusicPlaylist lc e cfg playlistId playlistType s) = Inr res"
  show "res = empty_results"
  proof (cases "apple_getPlaylistTracks e playlistId")
    case (Inl err)
    with a show ?thesis
      by (simp add: syncAppleMusicPlaylist_def split: if_splits sum.splits)
  next
    case (Inr found)
    with apple_getPlaylistTracks_Inr[OF Inr] a show ?thesis
      by (simp add: syncAppleMusicPlaylist_def split: if_splits sum.splits)
  qed
qed

theorem apple_normalizer_always_throws_witness:
  "apple_processTrackData apple_env (raw_apple ''Song'') ''pl1'' = Inl TypeError
   \<and> (\<exists>err. apple_getPlaylistTracks apple_env ''pl1'' = Inl err)
   \<and> apple_getPlaylistTracks demo_env ''pl1'' = Inr []
   \<and> fst (syncAppleMusicPlaylist ascii_toLowerCase demo_env live_config ''pl1'' ''Source'' empty_sink)
       = Inr empty_results"
proof -
  have run: "apple_getPlaylistTracks demo_env ''pl1'' = Inr []"
    by (simp add: apple_getPlaylistTracks_def demo_env_def)
  have ret: "fst (syncAppleMusicPlaylist ascii_toLowerCase demo_env live_config ''pl1'' ''Source'' empty_sink)
       = Inr empty_results"
    by (simp add: syncAppleMusicPlaylist_def apple_getPlaylistTracks_def demo_env_def)
  have song: "Inr [raw_apple ''Song''] \<in> set (am_pages apple_env ''pl1'')
       \<and> raw_apple ''Song'' \<in> set [raw_apple ''Song'']
       \<and> am_type (raw_apple ''Song'') = ''songs''"
    by (simp add: apple_env_def raw_apple_def)
  from apple_normalizer_always_throws
         [of apple_env "raw_apple ''Song''" "''pl1''" "[raw_apple ''Song'']"]
       song run ret
  show ?thesis by blast
qed

lemma round_seconds_near: "\<bar>1000 * round_seconds ms - ms\<bar> \<le> 500"
proof -
  have "ms + 500 = 1000 * ((ms + 500) div 1000) + (ms + 500) mod 1000" by simp
  moreover have "0 \<le> (ms + 500) mod 1000" and "(ms + 500) mod 1000 < 1000" by simp_all
  ultimately show ?thesis unfolding round_seconds_def by linarith
qed

lemma spotify_duration:
  "duration (spotify_processTrackData e t pid) =
     (if truthy_num (sp_duration_ms t) then map_option round_seconds (sp_duration_ms t)
      else None)"
  by (simp add: spotify_processTrackData_def Let_def split: option.splits)

text \<open>
  C9, as amended. For every raw Spotify track whose \<open>duration_ms\<close> is a number other
  than zero, the normalized duration is that number divided by 1000 and rounded to the
  nearest whole second (at most 500 ms away). When the catalogue gives no duration, or
  gives 0 ms, the duration is \<open>null\<close>: no placeholder number is put in its place.
\<close>

theorem duration_whole_seconds:
  "(sp_duration_ms t = Some ms \<and> ms \<noteq> 0 \<longrightarrow>
      duration (spotify_processTrackData e t playlistId) = Some (round_seconds ms)
      \<and> \<bar>1000 * round_seconds ms - ms\<bar> \<le> 500)
   \<and> (sp_duration_ms t = None \<or> sp_duration_ms t = Some 0 \<longrightarrow>
      duration (spotify_processTrackData e t playlistId) = None)"
  by (auto simp: spotify_duration truthy_num_def round_seconds_near)

theorem duration_whole_seconds_witness:
  "duration (spotify_processTrackData demo_env (raw_spotify ''Song'' (Some 215499)) ''pl'')
     = Some 215
   \<and> duration (spotify_processTrackData demo_env (raw_spotify ''Song'' None) ''pl'') = None"
  using duration_whole_seconds [of "raw_spotify ''Song'' (Some 215499)" 215499 demo_env "''pl''"]
        duration_whole_seconds [of "raw_spotify ''Song'' None" 0 demo_env "''pl''"]
  by (simp add: raw_spotify_def round_seconds_def)

text \<open>
  C9 as stated fails at a track whose \<open>duration_ms\<close> is \<open>0\<close>: the test
  \<open>track.duration_ms ? \<dots> : null\<close> takes the number zero for a missing duration.
\<close>

theorem duration_zero_ms_counterexample:
  "sp_duration_ms (raw_spotify ''Song'' (Some 0)) = Some 0
   \<and> duration (spotify_processTrackData demo_env (raw_spotify ''Song'' (Some 0)) ''pl'')
       \<noteq> Some (round_seconds 0)"
  by (simp add: spotify_duration raw_spotify_def truthy_num_def)

section \<open>Verified properties: identity resolution\<close>

lemma startsWith_iff: "startsWith hay needle \<longleftrightarrow> (\<exists>post. hay = needle @ post)"
  by (induction hay needle rule: startsWith.induct) auto

lemma str_includes_iff: "str_includes hay needle \<longleftrightarrow> (\<exists>pre post. hay = pre @ needle @ post)"
proof (induction hay)
  case Nil
  then show ?case by auto
next
  case (Cons h hs)
  show ?case
  proof
    assume "str_includes (h # hs) needle"
    then consider "startsWith (h # hs) needle" | "str_includes hs needle" by auto
    then show "\<exists>pre post. h # hs = pre @ needle @ post"
    proof cases
      case 1
      then obtain post where "h # hs = needle @ post" by (auto simp: startsWith_iff)
      then have "h # hs = [] @ needle @ post" by simp
      then show ?thesis by blast
    next
      case 2
      with Cons.IH obtain pre post where "hs = pre @ needle @ post" by blast
      then have "h # hs = (h # pre) @ needle @ post" by simp
      then show ?thesis by blast
    qed
  next
    assume "\<exists>pre post. h # hs = pre @ needle @ post"
    then obtain pre post where eq: "h # hs = pre @ needle @ post" by blast
    show "str_includes (h # hs) needle"
    proof (cases pre)
      case Nil
      with eq have "startsWith (h # hs) needle" by (auto simp: startsWith_iff)
      then show ?thesis by simp
    next
      case (Cons a pre')
      with eq have "hs = pre' @ needle @ post" by simp
      with Cons.IH have "str_includes hs needle" by blast
      then show ?thesis by simp
    qed
  qed
qed

lemma str_includes_refl: "str_includes x x"
  unfolding str_includes_iff by (rule exI[of _ "[]"], rule exI[of _ "[]"]) simp

lemma take_fault_pages [simp]:
  "sink_pages (snd (take_fault s)) = sink_pages s"
  "sink_next_id (snd (take_fault s)) = sink_next_id s"
  by (auto simp: take_fault_def split: list.splits)

lemma take_fault_no_faults: "sink_faults s = [] \<Longrightarrow> take_fault s = (False, s)"
  by (simp add: take_fault_def)

lemma queryDatabase_eq:
  "queryDatabase flt s =
     (if fst (take_fault s) then Inl ApiError else Inr (filter (matches flt) (sink_pages s)),
      snd (take_fault s))"
  by (simp add: queryDatabase_def notion_databases_query_def case_prod_beta)

lemma findTrackByIsrc_eq:
  "findTrackByIsrc i s =
     (if \<not> truthy i then (None, s)
      else (if fst (take_fault s) then None
            else (case filter (matches (RichTextContains ISRC_UPC (the i))) (sink_pages s) of
                    [] \<Rightarrow> None | r # rs \<Rightarrow> Some r),
            snd (take_fault s)))"
  by (simp add: findTrackByIsrc_def queryDatabase_eq split: list.splits)

lemma findTrackByTitleArtist_eq:
  "findTrackByTitleArtist lc ti a s =
     (if ti = [] \<or> \<not> truthy a then (None, s)
      else (if fst (take_fault s) then None
            else find (artist_matches lc (the a))
                   (filter (matches (TitleContains TRACK_TITLE ti)) (sink_pages s)),
            snd (take_fault s)))"
  by (simp add: findTrackByTitleArtist_def queryDatabase_eq)

lemma take_fault_True: "sink_faults s = True # fs \<Longrightarrow> take_fault s = (True, s\<lparr>sink_faults := fs\<rparr>)"
  by (simp add: take_fault_def)

lemmas js_eval = truthy_def ascii_toLowerCase_def ascii_lower_char_def char_of_def bit_Suc_0_iff

lemma ann_props: "props ann_page = [(TRACK_TITLE, PTitle [''Song'']), (ARTIST, PRichText [''Ann'']),
   (PERFORMED_BY, PRichText [''Ann'']), (DURATION, PRichText [''3:20'']), (ISRC_UPC, PRichText [''US1'']),
   (PLAYLIST, PSelect (Some ''Mix'')), (TYPE_FIELD, PSelect (Some ''Source'')), (REMOVED, PCheckbox False)]"
  apply (simp add: ann_page_def page_of_def mk_track_def buildTrackProperties_def formatRichText_def
      formatTitle_def formatSelect_def formatCheckbox_def truthy_def)
  apply code_simp
  done

section \<open>Verified properties: a second run of the playlist sync\<close>

lemma map_of_if_app:
  "map_of ((if c then [(name', v)] else []) @ rest) name
     = (if c \<and> name' = name then Some v else map_of rest name)"
  by simp

lemma map_of_single_app:
  "map_of ([(name', v)] @ rest) name = (if name' = name then Some v else map_of rest name)"
  by simp

lemma build_title:
  "title t \<noteq> [] \<Longrightarrow> map_of (buildTrackProperties t) TRACK_TITLE = Some (PTitle [title t])"
  unfolding buildTrackProperties_def map_of_if_app
  by (simp add: formatTitle_def truthy_def split del: if_split)

lemma build_artist:
  "truthy (artist t) \<Longrightarrow>
     map_of (buildTrackProperties t) ARTIST = Some (PRichText [the (artist t)])"
  unfolding buildTrackProperties_def map_of_if_app
  by (simp add: formatRichText_def split del: if_split)

lemma build_isrc:
  "truthy (isrc t) \<Longrightarrow>
     map_of (buildTrackProperties t) ISRC_UPC = Some (PRichText [the (isrc t)])"
  unfolding buildTrackProperties_def map_of_if_app map_of_single_app
  by (simp add: formatRichText_def split del: if_split)

lemma build_removed:
  "map_of (buildTrackProperties t) REMOVED = Some (PCheckbox False)"
  unfolding buildTrackProperties_def map_of_if_app map_of_single_app
  by (simp add: formatCheckbox_def split del: if_split)

lemma filter_hit: "(filter P ps \<noteq> []) = (\<exists>p \<in> set ps. P p)"
  by (induction ps) simp_all

lemma find_filter_hit:
  "(find Q (filter P ps) \<noteq> None) = (\<exists>p \<in> set ps. P p \<and> Q p)"
  by (induction ps) simp_all

lemma resolve_pure:
  assumes "sink_faults s = []"
  shows "resolve lc t s =
     (if truthy (isrc t)
         \<and> filter (matches (RichTextContains ISRC_UPC (the (isrc t)))) (sink_pages s) \<noteq> []
      then Some (hd (filter (matches (RichTextContains ISRC_UPC (the (isrc t)))) (sink_pages s)))
      else if title t = [] \<or> \<not> truthy (artist t) then None
      else find (artist_matches lc (the (artist t)))
             (filter (matches (TitleContains TRACK_TITLE (title t))) (sink_pages s)), s)"
proof -
  have tf: "take_fault s = (False, s)" using assms by (rule take_fault_no_faults)
  show ?thesis
    by (cases "filter (matches (RichTextContains ISRC_UPC (the (isrc t)))) (sink_pages s)")
       (simp_all add: resolve_def findTrackByIsrc_eq findTrackByTitleArtist_eq tf
          del: matches.simps)
qed

lemma resolve_no_faults:
  assumes "sink_faults s = []"
  shows "snd (resolve lc t s) = s" and "fst (resolve lc t s) \<noteq> None \<longleftrightarrow> resolvable lc t (sink_pages s)"
proof -
  show "snd (resolve lc t s) = s" by (simp add: resolve_pure[OF assms])
  let ?I = "filter (matches (RichTextContains ISRC_UPC (the (isrc t)))) (sink_pages s)"
  let ?T = "find (artist_matches lc (the (artist t)))
             (filter (matches (TitleContains TRACK_TITLE (title t))) (sink_pages s))"
  have i: "(\<exists>p \<in> set (sink_pages s). matches (RichTextContains ISRC_UPC (the (isrc t))) p) = (?I \<noteq> [])"
    by (rule filter_hit[symmetric])
  have a: "(\<exists>p \<in> set (sink_pages s). matches (TitleContains TRACK_TITLE (title t)) p
                          \<and> artist_matches lc (the (artist t)) p) = (?T \<noteq> None)"
    by (rule find_filter_hit[symmetric])
  have r: "fst (resolve lc t s) = (if truthy (isrc t) \<and> ?I \<noteq> [] then Some (hd ?I)
      else if title t = [] \<or> \<not> truthy (artist t) then None else ?T)"
    by (simp add: resolve_pure[OF assms] del: matches.simps)
  show "fst (resolve lc t s) \<noteq> None \<longleftrightarrow> resolvable lc t (sink_pages s)"
    unfolding resolvable_def i a r by auto
qed

lemma resolvable_mono: "resolvable lc t ps \<Longrightarrow> set ps \<subseteq> set ps' \<Longrightarrow> resolvable lc t ps'"
  unfolding resolvable_def by blast

lemma resolvable_ttype [simp]: "resolvable lc (t\<lparr>ttype := x\<rparr>) ps = resolvable lc t ps"
  by (simp add: resolvable_def)

lemma resolvable_own_page:
  assumes "truthy (isrc t) \<or> (title t \<noteq> [] \<and> truthy (artist t))"
  shows "resolvable lc t (\<lparr> page_id = pid, props = buildTrackProperties t \<rparr> # ps)"
proof (cases "truthy (isrc t)")
  case True
  then show ?thesis
    by (simp add: resolvable_def build_isrc str_includes_refl)
next
  case False
  with assms have ta: "title t \<noteq> []" "truthy (artist t)" by auto
  from ta(2) have tr: "truthy (Some (the (artist t)))" by (auto simp: truthy_def split: option.splits)
  have "matches (TitleContains TRACK_TITLE (title t))
          \<lparr> page_id = pid, props = buildTrackProperties t \<rparr>"
    using ta by (simp add: build_title str_includes_refl)
  moreover have "artist_matches lc (the (artist t))
          \<lparr> page_id = pid, props = buildTrackProperties t \<rparr>"
    using ta tr by (simp add: build_artist artist_matches_def rich_text_content_def str_includes_refl)
  ultimately show ?thesis
    using ta unfolding resolvable_def by (simp del: matches.simps)
qed


lemma createTrack_eq:
  "createTrack cfg t s =
     (if dryRun cfg then (Inr \<lparr> page_id = DryRunId, props = buildTrackProperties t \<rparr>, s)
      else if fst (take_fault s) then (Inl ApiError, snd (take_fault s))
      else (Inr \<lparr> page_id = PageId (sink_next_id s), props = buildTrackProperties t \<rparr>,
            (snd (take_fault s))
              \<lparr> sink_pages := \<lparr> page_id = PageId (sink_next_id s),
                                props = buildTrackProperties t \<rparr> # sink_pages s,
                sink_next_id := Suc (sink_next_id s) \<rparr>))"
  by (simp add: createTrack_def notion_pages_create_def Let_def case_prod_beta)

lemma syncTrackToNotion_no_faults:
  assumes "sink_faults s = []" "\<not> dryRun cfg"
  shows "syncTrackToNotion lc cfg t s =
     (if resolvable lc t (sink_pages s) then (Inr Skipped, s)
      else (Inr Created,
            s\<lparr> sink_pages := \<lparr> page_id = PageId (sink_next_id s),
                               props = buildTrackProperties t \<rparr> # sink_pages s,
               sink_next_id := Suc (sink_next_id s) \<rparr>))"
proof -
  have tf: "take_fault s = (False, s)" using assms by (simp add: take_fault_no_faults)
  obtain r where r: "resolve lc t s = (r, s)"
    using resolve_no_faults(1)[OF assms(1), of lc t] by (cases "resolve lc t s") simp
  with resolve_no_faults(2)[OF assms(1), of lc t] have "r \<noteq> None \<longleftrightarrow> resolvable lc t (sink_pages s)"
    by simp
  then show ?thesis
    using r assms(2) by (auto simp: syncTrackToNotion_def createTrack_eq tf)
qed

lemma syncTrackToNotion_resolvable:
  assumes "sink_faults s = []" "resolvable lc t (sink_pages s)"
  shows "syncTrackToNotion lc cfg t s = (Inr Skipped, s)"
proof -
  obtain r where r: "resolve lc t s = (r, s)"
    using resolve_no_faults(1)[OF assms(1), of lc t] by (cases "resolve lc t s") simp
  with resolve_no_faults(2)[OF assms(1), of lc t] assms(2) have "r \<noteq> None" by simp
  then show ?thesis using r by (auto simp: syncTrackToNotion_def)
qed

lemma first_run_makes_resolvable:
  assumes "sink_faults s = []" "\<not> dryRun cfg"
    and "\<forall>t \<in> set ts. truthy (isrc t) \<or> (title t \<noteq> [] \<and> truthy (artist t))"
    and "sync_tracks lc cfg ty ts res s = (res', s')"
  shows "sink_faults s' = [] \<and> set (sink_pages s) \<subseteq> set (sink_pages s')
         \<and> (\<forall>t \<in> set ts. resolvable lc t (sink_pages s'))"
  using assms
proof (induction ts arbitrary: res s)
  case Nil
  then show ?case by simp
next
  case (Cons t ts)
  let ?t = "t\<lparr>ttype := Some ty\<rparr>"
  have ident: "truthy (isrc ?t) \<or> (title ?t \<noteq> [] \<and> truthy (artist ?t))"
    using Cons.prems(3) by simp
  obtain lab s1 where step: "syncTrackToNotion lc cfg ?t s = (Inr lab, s1)"
      and s1: "sink_faults s1 = []" "set (sink_pages s) \<subseteq> set (sink_pages s1)"
              "resolvable lc t (sink_pages s1)"
  proof (cases "resolvable lc t (sink_pages s)")
    case True
    then have "syncTrackToNotion lc cfg ?t s = (Inr Skipped, s)"
      by (simp add: syncTrackToNotion_no_faults[OF Cons.prems(1,2)])
    with True Cons.prems(1) that show ?thesis by blast
  next
    case False
    let ?p = "\<lparr> page_id = PageId (sink_next_id s), props = buildTrackProperties ?t \<rparr>"
    let ?s1 = "s\<lparr> sink_pages := ?p # sink_pages s, sink_next_id := Suc (sink_next_id s) \<rparr>"
    from False have "syncTrackToNotion lc cfg ?t s = (Inr Created, ?s1)"
      by (simp add: syncTrackToNotion_no_faults[OF Cons.prems(1,2)])
    moreover have "resolvable lc ?t (sink_pages ?s1)"
      using resolvable_own_page[OF ident] by simp
    then have "resolvable lc t (sink_pages ?s1)" by simp
    moreover have "sink_faults ?s1 = []" using Cons.prems(1) by simp
    moreover have "set (sink_pages s) \<subseteq> set (sink_pages ?s1)" by auto
    ultimately show ?thesis using that by blast
  qed
  from step Cons.prems(4)
  have rest: "sync_tracks lc cfg ty ts (record_result (title t) lab res) s1 = (res', s')"
    by simp
  from Cons.prems(3) have "\<forall>t \<in> set ts. truthy (isrc t) \<or> (title t \<noteq> [] \<and> truthy (artist t))"
    by simp
  from Cons.IH[OF s1(1) Cons.prems(2) this rest]
  have ih: "sink_faults s' = []" "set (sink_pages s1) \<subseteq> set (sink_pages s')"
           "\<forall>t \<in> set ts. resolvable lc t (sink_pages s')" by auto
  from resolvable_mono[OF s1(3) ih(2)] ih s1(2) show ?case by auto
qed

lemma second_run_skips_all:
  assumes "sink_faults s = []" "\<forall>t \<in> set ts. resolvable lc t (sink_pages s)"
  shows "sync_tracks lc cfg ty ts res s =
     (res\<lparr> r_skipped := r_skipped res + length ts,
           r_tracks := r_tracks res @ map (\<lambda>t. (title t, Skipped)) ts \<rparr>, s)"
  using assms
proof (induction ts arbitrary: res)
  case Nil
  then show ?case by simp
next
  case (Cons t ts)
  have "syncTrackToNotion lc cfg (t\<lparr>ttype := Some ty\<rparr>) s = (Inr Skipped, s)"
    using Cons.prems by (simp add: syncTrackToNotion_resolvable)
  then show ?case
    using Cons.IH[of "record_result (title t) Skipped res"] Cons.prems
    by (simp add: record_result_def)
qed

text \<open>
  C5, as amended. Take a Spotify playlist in which every track has a non-empty ISRC, or a
  non-empty title and a non-empty artist. With dry run off and no request to the database
  failing, a second run of \<open>syncSpotifyPlaylist\<close> on the unchanged playlist, started in
  the sink the first run left, creates nothing: every track resolves to an existing page
  and is counted as \<open>skipped\<close>, and the sink stays as it is.
\<close>

theorem second_run_creates_nothing:
  assumes "\<not> dryRun cfg" and "sink_faults s = []"
    and "spotify_getPlaylistTracks e playlistId = Inr ts"
    and "\<forall>t \<in> set ts. truthy (isrc t) \<or> (title t \<noteq> [] \<and> truthy (artist t))"
    and "syncSpotifyPlaylist lc e cfg playlistId playlistType s = (Inr r1, s1)"
  shows "\<exists>r2. syncSpotifyPlaylist lc e cfg playlistId playlistType s1 = (Inr r2, s1)
           \<and> r_added r2 = 0 \<and> r_updated r2 = 0 \<and> r_errors r2 = 0
           \<and> r_skipped r2 = length ts
           \<and> r_tracks r2 = map (\<lambda>t. (title t, Skipped)) ts"
proof -
  from assms(5,3) have h: "sp_health e" and pl: "\<exists>p. sp_playlist e playlistId = Inr p"
    and run1: "sync_tracks lc cfg playlistType ts empty_results s = (r1, s1)"
    by (auto simp: syncSpotifyPlaylist_def split: if_splits sum.splits prod.splits)
  from first_run_makes_resolvable[OF assms(2) assms(1) assms(4) run1]
  have s1: "sink_faults s1 = []" "\<forall>t \<in> set ts. resolvable lc t (sink_pages s1)" by auto
  from second_run_skips_all[OF s1, of cfg playlistType empty_results] h pl assms(3)
  show ?thesis
    by (auto simp: syncSpotifyPlaylist_def empty_results_def)
qed

lemma playlist_env_tracks:
  "spotify_getPlaylistTracks (playlist_env raws) pid
     = Inr (spotify_process_items (playlist_env raws) pid (map Some raws))"
  by (simp add: spotify_getPlaylistTracks_def playlist_env_def)

lemma playlist_env_ok:
  "sp_health (playlist_env raws)" "sp_playlist (playlist_env raws) pid = Inr \<lparr> pl_name = ''Mix'', pl_trackCount = 3 \<rparr>"
  by (simp_all add: playlist_env_def demo_env_def)

lemma syncSpotifyPlaylist_playlist_env:
  "syncSpotifyPlaylist lc (playlist_env raws) cfg pid ty s =
     (Inr (fst (sync_tracks lc cfg ty (spotify_process_items (playlist_env raws) pid (map Some raws)) empty_results s)),
      snd (sync_tracks lc cfg ty (spotify_process_items (playlist_env raws) pid (map Some raws)) empty_results s))"
  by (simp add: syncSpotifyPlaylist_def playlist_env_tracks playlist_env_ok case_prod_beta)

lemma normalized_song:
  "spotify_processTrackData (playlist_env raws) (raw_song name code artists) pid =
     \<lparr> source = ''Spotify'', sourceId = ''id-'' @ name, title = name, url = None,
       duration = Some 180, trackNumber = Some 1,
       artist = (case artists of None \<Rightarrow> None | Some ns \<Rightarrow> if ns = [] then None else Some (join_comma ns)),
       performedBy = (case artists of None \<Rightarrow> None | Some ns \<Rightarrow> if ns = [] then None else Some (join_comma ns)),
       album = None, releaseDate = None,
       isrc = (if truthy code then code else None), composer = None,
       ttype = Some ''Source'', playlist = Some ''Mix'' \<rparr>"
  by (simp add: spotify_processTrackData_def raw_song_def raw_spotify_def Let_def truthy_num_def
        round_seconds_def playlist_name_or_id_def playlist_env_ok split: option.splits)

lemma not_resolvable:
  "\<not> truthy (isrc t) \<Longrightarrow> \<not> truthy (artist t) \<Longrightarrow> \<not> resolvable lc t ps"
  by (simp add: resolvable_def)

theorem second_run_creates_nothing_witness:
  "fst (syncSpotifyPlaylist ascii_toLowerCase
          (playlist_env [raw_song ''One'' (Some ''US1'') (Some [''Ann'']),
                         raw_song ''Two'' None (Some [''Bob''])])
          live_config ''sp1'' ''Source''
          (snd (syncSpotifyPlaylist ascii_toLowerCase
                  (playlist_env [raw_song ''One'' (Some ''US1'') (Some [''Ann'']),
                                 raw_song ''Two'' None (Some [''Bob''])])
                  live_config ''sp1'' ''Source'' empty_sink)))
     = Inr \<lparr> r_added = 0, r_updated = 0, r_skipped = 2, r_errors = 0,
             r_tracks = [(''One'', Skipped), (''Two'', Skipped)] \<rparr>"
proof -
  let ?e = "playlist_env [raw_song ''One'' (Some ''US1'') (Some [''Ann'']),
                          raw_song ''Two'' None (Some [''Bob''])]"
  let ?ts = "spotify_process_items ?e ''sp1''
               (map Some [raw_song ''One'' (Some ''US1'') (Some [''Ann'']),
                          raw_song ''Two'' None (Some [''Bob''])])"
  let ?run1 = "syncSpotifyPlaylist ascii_toLowerCase ?e live_config ''sp1'' ''Source'' empty_sink"
  have live: "\<not> dryRun live_config" by (simp add: live_config_def)
  have nf: "sink_faults empty_sink = []" by (simp add: empty_sink_def)
  have ts: "spotify_getPlaylistTracks ?e ''sp1'' = Inr ?ts" by (rule playlist_env_tracks)
  have ty: "sp_type (raw_song n c a) = ''track''" for n c a
    by (simp add: raw_song_def raw_spotify_def)
  have ident: "\<forall>t \<in> set ?ts. truthy (isrc t) \<or> (title t \<noteq> [] \<and> truthy (artist t))"
    by (simp add: ty normalized_song truthy_def)
  have titles: "map (\<lambda>t. (title t, Skipped)) ?ts = [(''One'', Skipped), (''Two'', Skipped)]"
    by (simp add: ty normalized_song)
  have len: "length ?ts = 2" by (simp add: ty)
  have run1: "?run1 = (Inr (fst (sync_tracks ascii_toLowerCase live_config ''Source'' ?ts empty_results empty_sink)), snd ?run1)"
    by (simp add: syncSpotifyPlaylist_playlist_env)
  from second_run_creates_nothing [OF live nf ts ident run1] titles len
  show ?thesis by auto
qed

text \<open>
  C5 as stated fails for a track that has neither an ISRC nor an artist: neither lookup
  can find the page the first run created for it (\<open>findTrackByTitleArtist\<close> returns
  \<open>null\<close> when the artist is missing), so the second run creates it again.
\<close>

theorem second_run_duplicates_counterexample:
  "fst (syncSpotifyPlaylist ascii_toLowerCase (playlist_env [raw_song ''Song'' None None])
          live_config ''sp1'' ''Source''
          (snd (syncSpotifyPlaylist ascii_toLowerCase (playlist_env [raw_song ''Song'' None None])
                  live_config ''sp1'' ''Source'' empty_sink)))
     = Inr \<lparr> r_added = 1, r_updated = 0, r_skipped = 0, r_errors = 0,
             r_tracks = [(''Song'', Created)] \<rparr>"
proof -
  let ?e = "playlist_env [raw_song ''Song'' None None]"
  let ?t = "spotify_processTrackData ?e (raw_song ''Song'' None None) ''sp1''"
  have ty: "sp_type (raw_song ''Song'' None None) = ''track''"
    by (simp add: raw_song_def raw_spotify_def)
  have ts: "spotify_process_items ?e ''sp1'' (map Some [raw_song ''Song'' None None]) = [?t]"
    by (simp add: ty)
  have nores: "\<not> resolvable ascii_toLowerCase (?t\<lparr>ttype := Some ''Source''\<rparr>) ps" for ps
    by (rule not_resolvable) (simp_all add: normalized_song truthy_def)
  have ti: "title ?t = ''Song''" by (simp add: normalized_song)
  have step: "sync_tracks ascii_toLowerCase live_config ''Source'' [?t] empty_results s =
       (\<lparr> r_added = 1, r_updated = 0, r_skipped = 0, r_errors = 0,
             r_tracks = [(''Song'', Created)] \<rparr>,
        s\<lparr> sink_pages := \<lparr> page_id = PageId (sink_next_id s),
                       props = buildTrackProperties (?t\<lparr>ttype := Some ''Source''\<rparr>) \<rparr> # sink_pages s,
               sink_next_id := Suc (sink_next_id s) \<rparr>)"
    if "sink_faults s = []" for s
    using syncTrackToNotion_no_faults[OF that, of live_config ascii_toLowerCase "?t\<lparr>ttype := Some ''Source''\<rparr>"] nores[of "sink_pages s"]
    by (simp add: live_config_def record_result_def empty_results_def ti)
  have f0: "sink_faults empty_sink = []" by (simp add: empty_sink_def)
  show ?thesis
    unfolding syncSpotifyPlaylist_playlist_env ts
    by (simp add: step f0 del: sync_tracks.simps)
qed

section \<open>Verified properties: a failing write during a playlist sync\<close>

lemma sync_tracks_append:
  "sync_tracks lc cfg ty (xs @ ys) res s =
     (case sync_tracks lc cfg ty xs res s of (res1, s1) \<Rightarrow> sync_tracks lc cfg ty ys res1 s1)"
  by (induction xs arbitrary: res s) (auto split: prod.splits sum.splits)

lemma sync_tracks_accounting:
  "sync_tracks lc cfg ty ts res s = (res', s') \<Longrightarrow>
     r_errors res' + length (r_tracks res') = r_errors res + length (r_tracks res) + length ts
     \<and> r_added res' + r_skipped res' + r_errors res'
         = r_added res + r_skipped res + r_errors res + length ts
     \<and> r_updated res' = r_updated res"
proof (induction ts arbitrary: res s)
  case Nil
  then show ?case by simp
next
  case (Cons t ts)
  obtain out s1 where step: "syncTrackToNotion lc cfg (t\<lparr>ttype := Some ty\<rparr>) s = (out, s1)"
    by (cases "syncTrackToNotion lc cfg (t\<lparr>ttype := Some ty\<rparr>) s")
  show ?case
  proof (cases out)
    case (Inl err)
    with step Cons.prems
    have "sync_tracks lc cfg ty ts (res\<lparr>r_errors := r_errors res + 1\<rparr>) s1 = (res', s')" by simp
    from Cons.IH[OF this] show ?thesis by simp
  next
    case (Inr lab)
    have lab: "lab = Created \<or> lab = Skipped"
      using step Inr by (auto simp: syncTrackToNotion_def split: prod.splits option.splits sum.splits)
    from Inr step Cons.prems
    have "sync_tracks lc cfg ty ts (record_result (title t) lab res) s1 = (res', s')" by simp
    from Cons.IH[OF this] lab show ?thesis by (auto simp: record_result_def)
  qed
qed

lemma duration_200: "formatDuration (Some 200) = Some ''3:20''"
  by code_simp

lemma mk_track_props:
  "buildTrackProperties (mk_track name code by) =
     (if name \<noteq> [] then [(TRACK_TITLE, PTitle [name])] else [])
     @ (if truthy by then [(ARTIST, PRichText [the by]), (PERFORMED_BY, PRichText [the by])] else [])
     @ [(DURATION, PRichText [''3:20''])]
     @ (if truthy code then [(ISRC_UPC, PRichText [the code])] else [])
     @ [(PLAYLIST, PSelect (Some ''Mix'')), (TYPE_FIELD, PSelect (Some ''Source'')),
        (REMOVED, PCheckbox False)]"
  by (simp add: buildTrackProperties_def mk_track_def duration_200 formatRichText_def
        formatTitle_def formatSelect_def formatCheckbox_def truthy_def)

lemma mk_track_ttype: "(mk_track name code by)\<lparr>ttype := Some ''Source''\<rparr> = mk_track name code by"
  by (simp add: mk_track_def)

lemma mk_track_sel:
  "title (mk_track name code by) = name" "isrc (mk_track name code by) = code"
  "artist (mk_track name code by) = by"
  by (simp_all add: mk_track_def)

lemma sink_with_simps:
  "take_fault (sink_with ps (f # fs)) = (f, sink_with ps fs)"
  "take_fault (sink_with ps []) = (False, sink_with ps [])"
  "sink_pages (sink_with ps fs) = ps"
  "sink_next_id (sink_with ps fs) = length ps"
  "sink_faults (sink_with ps fs) = fs"
  "(sink_with ps fs)\<lparr> sink_pages := p # ps, sink_next_id := Suc (length ps) \<rparr> = sink_with (p # ps) fs"
  by (simp_all add: sink_with_def take_fault_def)

lemma page_of_props: "props (page_of n t) = buildTrackProperties t" "page_id (page_of n t) = PageId n"
  by (simp_all add: page_of_def)

lemma page_of_eq: "\<lparr> page_id = PageId n, props = buildTrackProperties t \<rparr> = page_of n t"
  by (simp add: page_of_def)

lemmas sink_eval = syncTrackToNotion_def resolve_def findTrackByIsrc_eq findTrackByTitleArtist_eq
  createTrack_eq sink_with_simps record_result_def mk_track_props mk_track_ttype mk_track_sel
  page_of_props page_of_eq
  artist_matches_def rich_text_content_def js_eval empty_results_def

lemma live: "\<not> dryRun live_config" by (simp add: live_config_def)

section \<open>Verified properties: dry run\<close>

lemma same_records_refl [simp]: "same_records s s"
  by (simp add: same_records_def)

lemma same_records_trans: "same_records s s1 \<Longrightarrow> same_records s1 s2 \<Longrightarrow> same_records s s2"
  by (simp add: same_records_def)

lemma same_records_take_fault [simp]: "same_records s (snd (take_fault s))"
  by (simp add: same_records_def)

lemma queryDatabase_same: "same_records s (snd (queryDatabase flt s))"
  by (simp add: queryDatabase_eq)

lemma resolve_same: "same_records s (snd (resolve lc t s))"
proof -
  have 1: "same_records s (snd (findTrackByIsrc i s))" for i s
    by (simp add: findTrackByIsrc_eq)
  have 2: "same_records s (snd (findTrackByTitleArtist lc ti a s))" for ti a s
    by (simp add: findTrackByTitleArtist_eq)
  show ?thesis
    using 1[of s "isrc t"] 2[of s "title t" "artist t"]
          2[of "snd (findTrackByIsrc (isrc t) s)" "title t" "artist t"]
    by (auto simp: resolve_def case_prod_beta intro: same_records_trans)
qed

lemma dry_createTrack:
  "dryRun cfg \<Longrightarrow>
     createTrack cfg t s = (Inr \<lparr> page_id = DryRunId, props = buildTrackProperties t \<rparr>, s)"
  by (simp add: createTrack_def)

lemma dry_updateTrack:
  "dryRun cfg \<Longrightarrow>
     updateTrack cfg pid t s = (Inr \<lparr> page_id = pid, props = buildTrackProperties t \<rparr>, s)"
  by (simp add: updateTrack_def)

lemma dry_markTrackRemoved:
  "dryRun cfg \<Longrightarrow> markTrackRemoved cfg pid s = (Inr \<lparr> page_id = pid, props = [] \<rparr>, s)"
  by (simp add: markTrackRemoved_def)

lemma dry_syncTrackToNotion:
  assumes "dryRun cfg"
  shows "syncTrackToNotion lc cfg t s =
           (Inr (if fst (resolve lc t s) = None then Created else Skipped), snd (resolve lc t s))"
  by (cases "resolve lc t s") (auto simp: syncTrackToNotion_def dry_createTrack[OF assms])

lemma dry_syncTrackToNotion_updating:
  assumes "dryRun cfg"
  shows "syncTrackToNotion_updating lc cfg t s =
           (Inr (if fst (resolve lc t s) = None then Created else Updated), snd (resolve lc t s))"
  by (cases "resolve lc t s")
     (auto simp: syncTrackToNotion_updating_def dry_createTrack[OF assms] dry_updateTrack[OF assms])

lemma live_label_is_dry_label:
  assumes "dryRun cfg" "fst (syncTrackToNotion lc (cfg\<lparr>dryRun := False\<rparr>) t s) = Inr l"
  shows "fst (syncTrackToNotion lc cfg t s) = Inr l"
proof (cases "resolve lc t s")
  case (Pair r s1)
  show ?thesis
  proof (cases r)
    case None
    with Pair assms(2) have "l = Created"
      by (auto simp: syncTrackToNotion_def split: prod.splits sum.splits)
    with None Pair show ?thesis by (simp add: dry_syncTrackToNotion[OF assms(1)])
  next
    case (Some p)
    with Pair assms(2) have "l = Skipped" by (simp add: syncTrackToNotion_def)
    with Some Pair show ?thesis by (simp add: dry_syncTrackToNotion[OF assms(1)])
  qed
qed

lemma dry_sync_tracks:
  "dryRun cfg \<Longrightarrow> same_records s (snd (sync_tracks lc cfg ty ts res s))"
proof (induction ts arbitrary: res s)
  case Nil
  then show ?case by simp
next
  case (Cons t ts)
  let ?s1 = "snd (resolve lc (t\<lparr>ttype := Some ty\<rparr>) s)"
  have "same_records s ?s1" by (rule resolve_same)
  moreover have "same_records ?s1 (snd (sync_tracks lc cfg ty ts r ?s1))" for r
    by (rule Cons.IH[OF Cons.prems])
  ultimately show ?case
    by (auto simp: dry_syncTrackToNotion[OF Cons.prems] intro: same_records_trans)
qed

lemma dry_syncSpotifyPlaylist:
  "dryRun cfg \<Longrightarrow> same_records s (snd (syncSpotifyPlaylist lc e cfg pid ty s))"
  using dry_sync_tracks[of cfg s lc ty _ empty_results]
  by (auto simp: syncSpotifyPlaylist_def case_prod_beta split: sum.splits)

lemma dry_syncAppleMusicPlaylist:
  "dryRun cfg \<Longrightarrow> same_records s (snd (syncAppleMusicPlaylist lc e cfg pid ty s))"
  using dry_sync_tracks[of cfg s lc ty _ empty_results]
  by (auto simp: syncAppleMusicPlaylist_def case_prod_beta split: sum.splits)

lemma dry_sync_playlists:
  "dryRun cfg \<Longrightarrow> same_records s (snd (sync_playlists lc e cfg ps summ s))"
proof (induction ps arbitrary: summ s)
  case Nil
  then show ?case by simp
next
  case (Cons p ps)
  let ?run = "case pl_service p of
                Spotify \<Rightarrow> syncSpotifyPlaylist lc e cfg (pl_id p) (pl_type p) s
              | AppleMusic \<Rightarrow> syncAppleMusicPlaylist lc e cfg (pl_id p) (pl_type p) s"
  have 1: "same_records s (snd ?run)"
    using dry_syncSpotifyPlaylist[OF Cons.prems] dry_syncAppleMusicPlaylist[OF Cons.prems]
    by (cases "pl_service p") simp_all
  have 2: "same_records (snd ?run) (snd (sync_playlists lc e cfg ps sm (snd ?run)))" for sm
    by (rule Cons.IH[OF Cons.prems])
  obtain out s1 where run: "?run = (out, s1)" by (cases ?run)
  with 1 2 show ?case
    by (cases out) (auto intro: same_records_trans)
qed

lemma dry_cleanup_record:
  "dryRun cfg \<Longrightarrow>
     cleanup_record lc cfg ids r res s =
       (if is_manual_source (select_name r ''Source'') \<or> track_exists lc ids r then res
        else res\<lparr> c_marked := c_marked res + 1 \<rparr>, s)"
  by (simp add: cleanup_record_def dry_markTrackRemoved)

lemma dry_cleanup_records:
  "dryRun cfg \<Longrightarrow> snd (cleanup_records lc cfg ids rs res s) = s"
  by (induction rs arbitrary: res) (simp_all add: dry_cleanup_record)

lemma dry_cleanupRemovedTracks:
  "dryRun cfg \<Longrightarrow> same_records s (snd (cleanupRemovedTracks lc e cfg s))"
  using queryDatabase_same[of s "CheckboxEquals ''Removed'' False"]
  by (auto simp: cleanupRemovedTracks_def case_prod_beta dry_cleanup_records
           split: prod.splits sum.splits)

lemma dry_fullSync:
  assumes "dryRun cfg"
  shows "same_records s (snd (fullSync lc e cfg s))"
proof -
  let ?s1 = "snd (sync_playlists lc e cfg (getAllConfiguredPlaylists cfg) empty_summary s)"
  have 1: "same_records s ?s1" by (rule dry_sync_playlists[OF assms])
  have 2: "same_records ?s1 (snd (cleanupRemovedTracks lc e cfg ?s1))"
    by (rule dry_cleanupRemovedTracks[OF assms])
  have "snd (fullSync lc e cfg s) = snd (cleanupRemovedTracks lc e cfg ?s1)"
    by (simp add: fullSync_def syncAllPlaylists_def case_prod_beta split: prod.splits sum.splits)
  with same_records_trans[OF 1 2] show ?thesis by simp
qed

text \<open>
  C7. With \<open>dryRun\<close> set, no operation changes the database. \<open>createTrack\<close>,
  \<open>updateTrack\<close> and \<open>markTrackRemoved\<close> return without a request and leave the sink as
  it is. \<open>syncTrackToNotion\<close> computes the same decision from the same lookup and
  reports it under the same label: \<open>created\<close> when nothing is found, otherwise
  \<open>skipped\<close> (\<open>updated\<close> in the updating copy of the orchestrator), and whenever the run
  with \<open>dryRun\<close> off returns a label from the same sink, the dry run returns that label.
  A stale page is still counted as marked by the cleanup, without a write. A playlist sync
  and a whole \<open>fullSync\<close> leave the pages of the sink unchanged.
\<close>

theorem dry_run_writes_nothing:
  assumes "dryRun cfg"
  shows "createTrack cfg t s = (Inr \<lparr> page_id = DryRunId, props = buildTrackProperties t \<rparr>, s)
     \<and> updateTrack cfg pid t s = (Inr \<lparr> page_id = pid, props = buildTrackProperties t \<rparr>, s)
     \<and> markTrackRemoved cfg pid s = (Inr \<lparr> page_id = pid, props = [] \<rparr>, s)
     \<and> fst (syncTrackToNotion lc cfg t s)
           = Inr (if fst (resolve lc t s) = None then Created else Skipped)
     \<and> (\<forall>l. fst (syncTrackToNotion lc (cfg\<lparr>dryRun := False\<rparr>) t s) = Inr l
              \<longrightarrow> fst (syncTrackToNotion lc cfg t s) = Inr l)
     \<and> same_records s (snd (syncTrackToNotion lc cfg t s))
     \<and> fst (syncTrackToNotion_updating lc cfg t s)
           = Inr (if fst (resolve lc t s) = None then Created else Updated)
     \<and> same_records s (snd (syncTrackToNotion_updating lc cfg t s))
     \<and> same_records s (snd (syncSpotifyPlaylist lc e cfg playlistId playlistType s))
     \<and> cleanup_record lc cfg ids r res s =
           (if is_manual_source (select_name r ''Source'') \<or> track_exists lc ids r then res
            else res\<lparr> c_marked := c_marked res + 1 \<rparr>, s)
     \<and> same_records s (snd (fullSync lc e cfg s))"
  using assms live_label_is_dry_label[OF assms] resolve_same[of s lc t]
  by (simp add: dry_createTrack dry_updateTrack dry_markTrackRemoved dry_syncTrackToNotion
        dry_syncTrackToNotion_updating dry_syncSpotifyPlaylist dry_cleanup_record dry_fullSync)

lemma raw_song_type: "sp_type (raw_song n c a) = ''track''"
  by (simp add: raw_song_def raw_spotify_def)

lemma resolve_empty_sink: "resolve lc t empty_sink = (None, empty_sink)"
  by (simp add: resolve_pure empty_sink_def)

theorem dry_run_writes_nothing_witness:
  "fst (syncSpotifyPlaylist ascii_toLowerCase (playlist_env two_songs) dry_config ''sp1'' ''Source'' empty_sink)
     = Inr \<lparr> r_added = 2, r_updated = 0, r_skipped = 0, r_errors = 0,
             r_tracks = [(''One'', Created), (''Two'', Created)] \<rparr>
   \<and> sink_pages (snd (syncSpotifyPlaylist ascii_toLowerCase (playlist_env two_songs) dry_config ''sp1'' ''Source''
                        empty_sink)) = []
   \<and> fst (syncTrackToNotion ascii_toLowerCase dry_config (mk_track ''One'' (Some ''US1'') (Some ''Ann'')) empty_sink)
       = Inr Created
   \<and> fst (syncTrackToNotion_updating ascii_toLowerCase dry_config (mk_track ''Song'' (Some ''US1'') (Some ''Ann''))
            (sink_with [ann_page] [])) = Inr Updated
   \<and> sink_pages (snd (syncTrackToNotion_updating ascii_toLowerCase dry_config
            (mk_track ''Song'' (Some ''US1'') (Some ''Ann'')) (sink_with [ann_page] []))) = [ann_page]
   \<and> snd (markTrackRemoved dry_config (PageId 0) (sink_with [ann_page] [])) = sink_with [ann_page] []
   \<and> sink_pages (snd (fullSync ascii_toLowerCase (playlist_env two_songs) dry_config (sink_with [ann_page] [])))
       = [ann_page]"
proof -
  let ?e = "playlist_env two_songs"
  let ?A = "mk_track ''One'' (Some ''US1'') (Some ''Ann'')"
  let ?S = "mk_track ''Song'' (Some ''US1'') (Some ''Ann'')"
  have dry: "dryRun dry_config" by (simp add: dry_config_def)
  have step: "syncTrackToNotion ascii_toLowerCase dry_config t empty_sink = (Inr Created, empty_sink)" for t
    by (simp add: dry_syncTrackToNotion[OF dry] resolve_empty_sink)
  have counts: "fst (syncSpotifyPlaylist ascii_toLowerCase ?e dry_config ''sp1'' ''Source'' empty_sink)
     = Inr \<lparr> r_added = 2, r_updated = 0, r_skipped = 0, r_errors = 0,
             r_tracks = [(''One'', Created), (''Two'', Created)] \<rparr>"
    by (simp add: syncSpotifyPlaylist_playlist_env two_songs_def raw_song_type step
          record_result_def empty_results_def normalized_song)
  have found: "fst (resolve ascii_toLowerCase ?S (sink_with [ann_page] [])) \<noteq> None"
    by (simp add: resolve_pure sink_with_simps mk_track_sel truthy_def ann_props)
  note t1 = dry_run_writes_nothing [OF dry, of ?A empty_sink "PageId 0" ascii_toLowerCase ?e "''sp1''" "''Source''"]
  note t2 = dry_run_writes_nothing [OF dry, of ?S "sink_with [ann_page] []" "PageId 0" ascii_toLowerCase ?e]
  from t1 have a: "sink_pages (snd (syncSpotifyPlaylist ascii_toLowerCase ?e dry_config ''sp1'' ''Source'' empty_sink)) = []"
    by (simp add: same_records_def empty_sink_def)
  from t1 have b: "fst (syncTrackToNotion ascii_toLowerCase dry_config ?A empty_sink) = Inr Created"
    by (simp add: resolve_empty_sink)
  from t2 found have c: "fst (syncTrackToNotion_updating ascii_toLowerCase dry_config ?S (sink_with [ann_page] [])) = Inr Updated"
    by simp
  from t2 have d: "sink_pages (snd (syncTrackToNotion_updating ascii_toLowerCase dry_config ?S (sink_with [ann_page] [])))
      = [ann_page]"
    by (simp add: same_records_def sink_with_simps)
  from t2 have f: "snd (markTrackRemoved dry_config (PageId 0) (sink_with [ann_page] [])) = sink_with [ann_page] []"
    by simp
  from t2 have g: "sink_pages (snd (fullSync ascii_toLowerCase ?e dry_config (sink_with [ann_page] []))) = [ann_page]"
    by (simp add: same_records_def sink_with_simps)
  from counts a b c d f g show ?thesis by blast
qed

section \<open>Verified properties: errors and order of the resolution\<close>

lemma take_fault_Cons:
  "sink_faults s = f # fs \<Longrightarrow> take_fault s = (f, s\<lparr>sink_faults := fs\<rparr>)"
  by (simp add: take_fault_def)

text \<open>
  C8, as amended. Resolution never throws: \<open>resolve\<close> and the two lookups return a
  page or \<open>null\<close> and have no error result. A failed query of the ISRC lookup, and a
  failed query of the title and artist lookup, is caught and makes that lookup answer
  \<open>null\<close>. After a failed ISRC query \<open>resolve\<close> goes on to the title and artist
  lookup and returns what that lookup returns, from the sink the failed request left.
  \<open>resolve\<close> returns \<open>null\<close> whenever the query of the title and artist lookup fails,
  be it the first request (no ISRC on the track) or the one after an ISRC lookup that found
  nothing.
\<close>

theorem lookups_swallow_query_errors:
  "(fst (queryDatabase (RichTextContains ISRC_UPC i) s) = Inl err
      \<longrightarrow> fst (findTrackByIsrc (Some i) s) = None)
   \<and> (fst (queryDatabase (TitleContains TRACK_TITLE ti) s) = Inl err
      \<longrightarrow> fst (findTrackByTitleArtist lc ti a s) = None)
   \<and> (truthy (isrc t)
       \<and> fst (queryDatabase (RichTextContains ISRC_UPC (the (isrc t))) s) = Inl err
      \<longrightarrow> resolve lc t s
            = findTrackByTitleArtist lc (title t) (artist t)
                (snd (queryDatabase (RichTextContains ISRC_UPC (the (isrc t))) s)))
   \<and> (\<not> truthy (isrc t)
       \<and> fst (queryDatabase (TitleContains TRACK_TITLE (title t)) s) = Inl err
      \<longrightarrow> fst (resolve lc t s) = None)
   \<and> (truthy (isrc t) \<and> findTrackByIsrc (isrc t) s = (None, s1)
       \<and> fst (queryDatabase (TitleContains TRACK_TITLE (title t)) s1) = Inl err
      \<longrightarrow> fst (resolve lc t s) = None)"
proof (intro conjI impI)
  assume "fst (queryDatabase (RichTextContains ISRC_UPC i) s) = Inl err"
  then show "fst (findTrackByIsrc (Some i) s) = None"
    by (simp add: findTrackByIsrc_eq queryDatabase_eq split: if_splits)
next
  assume "fst (queryDatabase (TitleContains TRACK_TITLE ti) s) = Inl err"
  then show "fst (findTrackByTitleArtist lc ti a s) = None"
    by (simp add: findTrackByTitleArtist_eq queryDatabase_eq split: if_splits)
next
  assume a: "truthy (isrc t)
       \<and> fst (queryDatabase (RichTextContains ISRC_UPC (the (isrc t))) s) = Inl err"
  then have "fst (take_fault s)" by (simp add: queryDatabase_eq split: if_splits)
  with a show "resolve lc t s
            = findTrackByTitleArtist lc (title t) (artist t)
                (snd (queryDatabase (RichTextContains ISRC_UPC (the (isrc t))) s))"
    by (simp add: resolve_def findTrackByIsrc_eq queryDatabase_eq del: matches.simps)
next
  assume a: "\<not> truthy (isrc t)
       \<and> fst (queryDatabase (TitleContains TRACK_TITLE (title t)) s) = Inl err"
  then have "fst (take_fault s)" by (simp add: queryDatabase_eq split: if_splits)
  with a show "fst (resolve lc t s) = None"
    by (simp add: resolve_def findTrackByTitleArtist_eq)
next
  assume a: "truthy (isrc t) \<and> findTrackByIsrc (isrc t) s = (None, s1)
       \<and> fst (queryDatabase (TitleContains TRACK_TITLE (title t)) s1) = Inl err"
  then have "fst (take_fault s1)" by (simp add: queryDatabase_eq split: if_splits)
  with a show "fst (resolve lc t s) = None"
    by (simp add: resolve_def findTrackByTitleArtist_eq)
qed

lemmas lookup_eval = resolve_def findTrackByIsrc_eq findTrackByTitleArtist_eq queryDatabase_eq
  sink_with_simps mk_track_sel ann_props artist_matches_def rich_text_content_def js_eval

theorem lookups_swallow_query_errors_witness:
  "fst (findTrackByIsrc (Some ''US1'') (sink_with [ann_page] [True])) = None
   \<and> fst (findTrackByTitleArtist ascii_toLowerCase ''Song'' (Some ''Ann'')
            (sink_with [ann_page] [True])) = None
   \<and> resolve ascii_toLowerCase (mk_track ''Song'' (Some ''US1'') (Some ''Ann''))
        (sink_with [ann_page] [True])
       = findTrackByTitleArtist ascii_toLowerCase ''Song'' (Some ''Ann'') (sink_with [ann_page] [])
   \<and> fst (resolve ascii_toLowerCase (mk_track ''Song'' None (Some ''Ann''))
            (sink_with [ann_page] [True])) = None
   \<and> fst (resolve ascii_toLowerCase (mk_track ''Song'' (Some ''US9'') (Some ''Ann''))
            (sink_with [ann_page] [False, True])) = None"
proof -
  let ?s = "sink_with [ann_page] [True]"
  let ?t1 = "mk_track ''Song'' (Some ''US1'') (Some ''Ann'')"
  let ?t2 = "mk_track ''Song'' None (Some ''Ann'')"
  let ?t3 = "mk_track ''Song'' (Some ''US9'') (Some ''Ann'')"
  have q1: "fst (queryDatabase (RichTextContains ISRC_UPC ''US1'') ?s) = Inl ApiError"
    by (simp add: queryDatabase_eq sink_with_simps)
  have q1s: "snd (queryDatabase (RichTextContains ISRC_UPC ''US1'') ?s) = sink_with [ann_page] []"
    by (simp add: queryDatabase_eq sink_with_simps)
  have q2: "fst (queryDatabase (TitleContains TRACK_TITLE ''Song'') ?s) = Inl ApiError"
    by (simp add: queryDatabase_eq sink_with_simps)
  have l3: "findTrackByIsrc (Some ''US9'') (sink_with [ann_page] [False, True]) = (None, ?s)"
    by (simp add: lookup_eval)
  note th = lookups_swallow_query_errors
      [where i = "''US1''" and s = ?s and err = ApiError and ti = "''Song''"
         and lc = ascii_toLowerCase and a = "Some ''Ann''"]
  from th[where t = ?t1] q1 q2
  have a: "fst (findTrackByIsrc (Some ''US1'') ?s) = None"
    and b: "fst (findTrackByTitleArtist ascii_toLowerCase ''Song'' (Some ''Ann'') ?s) = None"
    by blast+
  from th[where t = ?t1] q1 q1s
  have c: "resolve ascii_toLowerCase ?t1 ?s
       = findTrackByTitleArtist ascii_toLowerCase ''Song'' (Some ''Ann'') (sink_with [ann_page] [])"
    by (simp add: mk_track_sel truthy_def)
  from th[where t = ?t2] q2
  have d: "fst (resolve ascii_toLowerCase ?t2 ?s) = None"
    by (simp add: mk_track_sel truthy_def)
  from lookups_swallow_query_errors
      [where s = "sink_with [ann_page] [False, True]" and err = ApiError
         and lc = ascii_toLowerCase and t = ?t3 and ?s1.0 = ?s] l3 q2
  have e: "fst (resolve ascii_toLowerCase ?t3 (sink_with [ann_page] [False, True])) = None"
    by (simp add: mk_track_sel truthy_def)
  from a b c d e show ?thesis by blast
qed

text \<open>
  C8 as stated fails when only the ISRC query fails: the error is caught, the title and
  artist lookup runs next and finds the page, so \<open>resolve\<close> returns that page and not
  \<open>null\<close>.
\<close>

theorem resolve_after_failed_isrc_lookup_counterexample:
  "fst (queryDatabase (RichTextContains ISRC_UPC ''US1'') (sink_with [ann_page] [True]))
     = Inl ApiError
   \<and> fst (resolve ascii_toLowerCase (mk_track ''Song'' (Some ''US1'') (Some ''Ann''))
            (sink_with [ann_page] [True])) = Some ann_page"
  by (simp add: lookup_eval)

lemma matches_isrc_iff:
  "matches (RichTextContains name v) p \<longleftrightarrow>
     (\<exists>segs pre post. map_of (props p) name = Some (PRichText segs) \<and> concat segs = pre @ v @ post)"
  by (auto simp: str_includes_iff split: option.splits propval.splits)

lemma matches_title_iff:
  "matches (TitleContains name v) p \<longleftrightarrow>
     (\<exists>segs pre post. map_of (props p) name = Some (PTitle segs) \<and> concat segs = pre @ v @ post)"
  by (auto simp: str_includes_iff split: option.splits propval.splits)

lemma artist_matches_iff:
  "artist_matches lc a p \<longleftrightarrow>
     (\<exists>stored pre post. rich_text_content p ARTIST = Some stored \<and> stored \<noteq> []
                         \<and> lc stored = pre @ lc a @ post)"
  by (auto simp: artist_matches_def truthy_def str_includes_iff Let_def split: option.splits)

text \<open>
  C2, as amended. Where its requests are answered, \<open>resolve\<close> goes in this order. A
  track with a non-empty ISRC gets the first page of the ISRC query: the newest page whose
  stored ISRC text contains the track's ISRC, whatever the title and artist. Without an
  ISRC, or when that query returns nothing, and only when the track's title and artist
  are both non-empty, one title query is made and the track gets the first of its pages
  (those whose stored title contains the track's title, newest first) whose stored artist
  is non-empty and, lowercased, contains the track's artist, lowercased; when no page
  passes both tests the answer is \<open>null\<close>. When the title or the artist is empty or
  absent the second lookup makes no request (the sink and its schedule of requests are
  returned as the ISRC step left them) and the answer is \<open>null\<close>. Containment is that
  of a contiguous piece of the stored text; the stored artist is the first text segment
  of the property.
\<close>

theorem resolve_order:
  "(truthy (isrc t) \<and> \<not> fst (take_fault s)
      \<and> filter (matches (RichTextContains ISRC_UPC (the (isrc t)))) (sink_pages s) = r # rs
      \<longrightarrow> resolve lc t s = (Some r, snd (take_fault s)))
   \<and> (\<not> truthy (isrc t) \<and> title t \<noteq> [] \<and> truthy (artist t) \<and> \<not> fst (take_fault s)
      \<longrightarrow> resolve lc t s =
            (find (artist_matches lc (the (artist t)))
               (filter (matches (TitleContains TRACK_TITLE (title t))) (sink_pages s)),
             snd (take_fault s)))
   \<and> (truthy (isrc t) \<and> \<not> fst (take_fault s)
      \<and> filter (matches (RichTextContains ISRC_UPC (the (isrc t)))) (sink_pages s) = []
      \<and> title t \<noteq> [] \<and> truthy (artist t) \<and> \<not> fst (take_fault (snd (take_fault s)))
      \<longrightarrow> resolve lc t s =
            (find (artist_matches lc (the (artist t)))
               (filter (matches (TitleContains TRACK_TITLE (title t))) (sink_pages s)),
             snd (take_fault (snd (take_fault s)))))
   \<and> (\<not> truthy (isrc t) \<and> (title t = [] \<or> \<not> truthy (artist t))
      \<longrightarrow> resolve lc t s = (None, s))
   \<and> (truthy (isrc t) \<and> \<not> fst (take_fault s)
      \<and> filter (matches (RichTextContains ISRC_UPC (the (isrc t)))) (sink_pages s) = []
      \<and> (title t = [] \<or> \<not> truthy (artist t))
      \<longrightarrow> resolve lc t s = (None, snd (take_fault s)))
   \<and> (find (artist_matches lc a) (filter (matches (TitleContains TRACK_TITLE ti)) ps) = None
      \<longleftrightarrow> \<not> (\<exists>p \<in> set ps. matches (TitleContains TRACK_TITLE ti) p \<and> artist_matches lc a p))
   \<and> (matches (RichTextContains ISRC_UPC v) p \<longleftrightarrow>
        (\<exists>segs pre post. map_of (props p) ISRC_UPC = Some (PRichText segs)
                          \<and> concat segs = pre @ v @ post))
   \<and> (matches (TitleContains TRACK_TITLE v) p \<longleftrightarrow>
        (\<exists>segs pre post. map_of (props p) TRACK_TITLE = Some (PTitle segs)
                          \<and> concat segs = pre @ v @ post))
   \<and> (artist_matches lc a p \<longleftrightarrow>
        (\<exists>stored pre post. rich_text_content p ARTIST = Some stored \<and> stored \<noteq> []
                            \<and> lc stored = pre @ lc a @ post))"
proof -
  have none: "find (artist_matches lc a) (filter (matches (TitleContains TRACK_TITLE ti)) ps) = None
      \<longleftrightarrow> \<not> (\<exists>p \<in> set ps. matches (TitleContains TRACK_TITLE ti) p \<and> artist_matches lc a p)"
    using find_filter_hit[of "artist_matches lc a" "matches (TitleContains TRACK_TITLE ti)" ps]
    by blast
  have run: "(truthy (isrc t) \<and> \<not> fst (take_fault s)
      \<and> filter (matches (RichTextContains ISRC_UPC (the (isrc t)))) (sink_pages s) = r # rs
      \<longrightarrow> resolve lc t s = (Some r, snd (take_fault s)))
   \<and> (\<not> truthy (isrc t) \<and> title t \<noteq> [] \<and> truthy (artist t) \<and> \<not> fst (take_fault s)
      \<longrightarrow> resolve lc t s =
            (find (artist_matches lc (the (artist t)))
               (filter (matches (TitleContains TRACK_TITLE (title t))) (sink_pages s)),
             snd (take_fault s)))
   \<and> (truthy (isrc t) \<and> \<not> fst (take_fault s)
      \<and> filter (matches (RichTextContains ISRC_UPC (the (isrc t)))) (sink_pages s) = []
      \<and> title t \<noteq> [] \<and> truthy (artist t) \<and> \<not> fst (take_fault (snd (take_fault s)))
      \<longrightarrow> resolve lc t s =
            (find (artist_matches lc (the (artist t)))
               (filter (matches (TitleContains TRACK_TITLE (title t))) (sink_pages s)),
             snd (take_fault (snd (take_fault s)))))
   \<and> (\<not> truthy (isrc t) \<and> (title t = [] \<or> \<not> truthy (artist t))
      \<longrightarrow> resolve lc t s = (None, s))
   \<and> (truthy (isrc t) \<and> \<not> fst (take_fault s)
      \<and> filter (matches (RichTextContains ISRC_UPC (the (isrc t)))) (sink_pages s) = []
      \<and> (title t = [] \<or> \<not> truthy (artist t))
      \<longrightarrow> resolve lc t s = (None, snd (take_fault s)))"
    by (auto simp add: resolve_def findTrackByIsrc_eq findTrackByTitleArtist_eq
             simp del: matches.simps)
  from run none matches_isrc_iff[of ISRC_UPC v p] matches_title_iff[of TRACK_TITLE v p]
       artist_matches_iff[of lc a p]
  show ?thesis by blast
qed

theorem resolve_order_witness:
  "resolve ascii_toLowerCase (mk_track ''Other'' (Some ''S1'') (Some ''Bob'')) (sink_with [ann_page] [])
     = (Some ann_page, sink_with [ann_page] [])
   \<and> resolve ascii_toLowerCase (mk_track ''on'' None (Some ''NN'')) (sink_with [ann_page] [False, True])
     = (Some ann_page, sink_with [ann_page] [True])
   \<and> resolve ascii_toLowerCase (mk_track ''Song'' (Some ''US9'') (Some ''ann''))
        (sink_with [ann_page] [False, False, True])
     = (Some ann_page, sink_with [ann_page] [True])
   \<and> resolve ascii_toLowerCase (mk_track ''Song'' None (Some ''Annie'')) (sink_with [ann_page] [])
     = (None, sink_with [ann_page] [])
   \<and> resolve ascii_toLowerCase (mk_track ''Song'' None None) (sink_with [ann_page] [True])
     = (None, sink_with [ann_page] [True])
   \<and> resolve ascii_toLowerCase (mk_track ''Song'' (Some ''US9'') (Some [])) (sink_with [ann_page] [False, True])
     = (None, sink_with [ann_page] [True])"
proof -
  let ?lc = ascii_toLowerCase
  have m1: "filter (matches (RichTextContains ISRC_UPC ''S1'')) [ann_page] = ann_page # []"
    by (simp add: ann_props)
  have m9: "filter (matches (RichTextContains ISRC_UPC ''US9'')) [ann_page] = []"
    by (simp add: ann_props)
  have ton: "filter (matches (TitleContains TRACK_TITLE ''on'')) [ann_page] = [ann_page]"
    by (simp add: ann_props)
  have tsong: "filter (matches (TitleContains TRACK_TITLE ''Song'')) [ann_page] = [ann_page]"
    by (simp add: ann_props)
  have a_nn: "artist_matches ?lc ''NN'' ann_page"
    by (simp add: artist_matches_def rich_text_content_def ann_props js_eval)
  have a_ann: "artist_matches ?lc ''ann'' ann_page"
    by (simp add: artist_matches_def rich_text_content_def ann_props js_eval)
  have a_annie: "\<not> artist_matches ?lc ''Annie'' ann_page"
    by (simp add: artist_matches_def rich_text_content_def ann_props js_eval)
  have w1: "resolve ?lc (mk_track ''Other'' (Some ''S1'') (Some ''Bob'')) (sink_with [ann_page] [])
     = (Some ann_page, sink_with [ann_page] [])"
    using resolve_order [where lc = ?lc and t = "mk_track ''Other'' (Some ''S1'') (Some ''Bob'')"
        and s = "sink_with [ann_page] []" and r = ann_page and rs = "[]"] m1
    by (simp add: mk_track_sel truthy_def sink_with_simps del: matches.simps)
  have w2: "resolve ?lc (mk_track ''on'' None (Some ''NN'')) (sink_with [ann_page] [False, True])
     = (Some ann_page, sink_with [ann_page] [True])"
    using resolve_order [where lc = ?lc and t = "mk_track ''on'' None (Some ''NN'')"
        and s = "sink_with [ann_page] [False, True]"] ton a_nn
    by (simp add: mk_track_sel truthy_def sink_with_simps del: matches.simps)
  have w3: "resolve ?lc (mk_track ''Song'' (Some ''US9'') (Some ''ann''))
        (sink_with [ann_page] [False, False, True])
     = (Some ann_page, sink_with [ann_page] [True])"
    using resolve_order [where lc = ?lc and t = "mk_track ''Song'' (Some ''US9'') (Some ''ann'')"
        and s = "sink_with [ann_page] [False, False, True]"] m9 tsong a_ann
    by (simp add: mk_track_sel truthy_def sink_with_simps del: matches.simps)
  have w4: "resolve ?lc (mk_track ''Song'' None (Some ''Annie'')) (sink_with [ann_page] [])
     = (None, sink_with [ann_page] [])"
    using resolve_order [where lc = ?lc and t = "mk_track ''Song'' None (Some ''Annie'')"
        and s = "sink_with [ann_page] []"] tsong a_annie
    by (simp add: mk_track_sel truthy_def sink_with_simps del: matches.simps)
  have w5: "resolve ?lc (mk_track ''Song'' None None) (sink_with [ann_page] [True])
     = (None, sink_with [ann_page] [True])"
    using resolve_order [where lc = ?lc and t = "mk_track ''Song'' None None"
        and s = "sink_with [ann_page] [True]"]
    by (simp add: mk_track_sel truthy_def)
  have w6: "resolve ?lc (mk_track ''Song'' (Some ''US9'') (Some [])) (sink_with [ann_page] [False, True])
     = (None, sink_with [ann_page] [True])"
    using resolve_order [where lc = ?lc and t = "mk_track ''Song'' (Some ''US9'') (Some [])"
        and s = "sink_with [ann_page] [False, True]"] m9
    by (simp add: mk_track_sel truthy_def sink_with_simps del: matches.simps)
  from w1 w2 w3 w4 w5 w6 show ?thesis by blast
qed

text \<open>
  C2 as stated fails at a track whose artist is the empty string (a Spotify track whose
  only artist has an empty name): the page's title contains the track's title and the
  page's artist, lowercased, contains the empty string, yet \<open>findTrackByTitleArtist\<close>
  returns \<open>null\<close> at its guard \<open>if (!title || !artist)\<close>.
\<close>

theorem resolve_empty_artist_counterexample:
  "isrc (spotify_processTrackData demo_env unnamed_artist_raw ''sp1'') = None
   \<and> title (spotify_processTrackData demo_env unnamed_artist_raw ''sp1'') = ''Song''
   \<and> artist (spotify_processTrackData demo_env unnamed_artist_raw ''sp1'') = Some []
   \<and> matches (TitleContains TRACK_TITLE ''Song'') ann_page
   \<and> rich_text_content ann_page ARTIST = Some ''Ann''
   \<and> str_includes (ascii_toLowerCase ''Ann'') (ascii_toLowerCase [])
   \<and> resolve ascii_toLowerCase (spotify_processTrackData demo_env unnamed_artist_raw ''sp1'')
        (sink_with [ann_page] []) = (None, sink_with [ann_page] [])"
  by (simp add: spotify_processTrackData_def unnamed_artist_raw_def raw_spotify_def Let_def
        truthy_def truthy_num_def resolve_def findTrackByTitleArtist_eq ann_props
        rich_text_content_def ascii_toLowerCase_def)

section \<open>Verified properties: a failing write reaches the playlist driver\<close>

lemma normalized_track:
  "spotify_processTrackData (playlist_env raws) (raw_track name code by) pid
     = mk_track name (if truthy code then code else None) (Some by)"
  by (simp add: spotify_processTrackData_def raw_track_def mk_track_def Let_def truthy_num_def
        round_seconds_def playlist_name_or_id_def playlist_env_ok)

lemma raw_track_type: "sp_type (raw_track name code by) = ''track''"
  by (simp add: raw_track_def)

lemma five_songs_tracks:
  "spotify_getPlaylistTracks (playlist_env five_songs) pid = Inr five_tracks"
  by (simp add: playlist_env_tracks five_songs_def five_tracks_def raw_track_type
        normalized_track truthy_def)

lemma sync_tracks_errors_bounds:
  "sync_tracks lc cfg ty ts res s = (res', s') \<Longrightarrow>
     r_errors res \<le> r_errors res' \<and> r_errors res' \<le> r_errors res + length ts"
proof (induction ts arbitrary: res s)
  case Nil
  then show ?case by simp
next
  case (Cons t ts)
  obtain out s1 where step: "syncTrackToNotion lc cfg (t\<lparr>ttype := Some ty\<rparr>) s = (out, s1)"
    by (cases "syncTrackToNotion lc cfg (t\<lparr>ttype := Some ty\<rparr>) s")
  show ?case
  proof (cases out)
    case (Inl err)
    with step Cons.prems
    have "sync_tracks lc cfg ty ts (res\<lparr>r_errors := r_errors res + 1\<rparr>) s1 = (res', s')" by simp
    from Cons.IH[OF this] show ?thesis by simp
  next
    case (Inr lab)
    with step Cons.prems
    have "sync_tracks lc cfg ty ts (record_result (title t) lab res) s1 = (res', s')" by simp
    from Cons.IH[OF this] show ?thesis
      by (cases lab) (simp_all add: record_result_def)
  qed
qed

text \<open>
  C6. A failed write on one track reaches the playlist driver, which counts exactly one
  error for it and goes on. Let \<open>syncSpotifyPlaylist\<close> fetch the tracks
  \<open>pre @ t # post\<close>; when its loop has handled \<open>pre\<close>, the lookup for \<open>t\<close> finds
  nothing and \<open>createTrack\<close> throws, then \<open>syncTrackToNotion\<close> rethrows that error,
  the driver adds one to \<open>errors\<close> and handles \<open>post\<close> from the sink as the failed write
  left it, and what it returns is the result of that continuation. In the result every
  track is counted once, as created, skipped or an error; every track that did not fail
  has its own outcome listed; and the errors are those before \<open>t\<close>, one for \<open>t\<close>, and
  at most one for each later track. \<open>syncAppleMusicPlaylist\<close> runs the same loop on the
  tracks it fetched.
\<close>

theorem failing_write_counts_one_error:
  assumes "sp_health e" and "sp_playlist e playlistId = Inr pl"
    and "spotify_getPlaylistTracks e playlistId = Inr (pre @ t # post)"
    and "sync_tracks lc cfg playlistType pre empty_results s = (res1, s1)"
    and "resolve lc (t\<lparr>ttype := Some playlistType\<rparr>) s1 = (None, s2)"
    and "createTrack cfg (t\<lparr>ttype := Some playlistType\<rparr>) s2 = (Inl err, s3)"
    and "sync_tracks lc cfg playlistType post (res1\<lparr>r_errors := r_errors res1 + 1\<rparr>) s3
           = (res', s')"
  shows "syncTrackToNotion lc cfg (t\<lparr>ttype := Some playlistType\<rparr>) s1 = (Inl err, s3)
     \<and> syncSpotifyPlaylist lc e cfg playlistId playlistType s = (Inr res', s')
     \<and> r_errors res1 + length (r_tracks res1) = length pre
     \<and> r_errors res' + length (r_tracks res') = length (pre @ t # post)
     \<and> r_errors res' + length (r_tracks res')
         = (r_errors res1 + 1) + length (r_tracks res1) + length post
     \<and> r_added res' + r_skipped res' + r_errors res' = length (pre @ t # post)
     \<and> r_errors res1 + 1 \<le> r_errors res'
     \<and> r_errors res' \<le> r_errors res1 + 1 + length post
     \<and> (am_health e \<and> am_playlist e applePlaylistId = Inr pl'
          \<and> apple_getPlaylistTracks e applePlaylistId = Inr appleTracks
        \<longrightarrow> syncAppleMusicPlaylist lc e cfg applePlaylistId playlistType s0
              = (Inr (fst (sync_tracks lc cfg playlistType appleTracks empty_results s0)),
                 snd (sync_tracks lc cfg playlistType appleTracks empty_results s0)))"
proof -
  have step: "syncTrackToNotion lc cfg (t\<lparr>ttype := Some playlistType\<rparr>) s1 = (Inl err, s3)"
    using assms(5,6) by (simp add: syncTrackToNotion_def)
  have loop: "sync_tracks lc cfg playlistType (pre @ t # post) empty_results s = (res', s')"
    using assms(4,7) step by (simp add: sync_tracks_append)
  have drv: "syncSpotifyPlaylist lc e cfg playlistId playlistType s = (Inr res', s')"
    using assms(1,2,3) loop by (simp add: syncSpotifyPlaylist_def)
  from sync_tracks_accounting[OF assms(4)] sync_tracks_accounting[OF assms(7)]
       sync_tracks_accounting[OF loop] sync_tracks_errors_bounds[OF assms(7)] step drv
  show ?thesis by (simp add: empty_results_def syncAppleMusicPlaylist_def case_prod_beta)
qed

theorem failing_write_counts_one_error_witness:
  "syncSpotifyPlaylist ascii_toLowerCase (playlist_env five_songs) live_config ''sp1'' ''Source''
      (sink_with [] [False, False, False, False, False, False, False, True])
   = (Inr \<lparr> r_added = 3, r_updated = 0, r_skipped = 1, r_errors = 1,
         r_tracks = [(''A'', Created), (''B'', Created), (''D'', Skipped), (''E'', Created)] \<rparr>,
      sink_with [page_of (Suc (Suc 0)) (mk_track ''E'' (Some ''US5'') (Some ''Eve'')),
                 page_of (Suc 0) (mk_track ''B'' None (Some ''Bob'')),
                 page_of 0 (mk_track ''A'' (Some ''US1'') (Some ''Ann''))] [])
   \<and> syncAppleMusicPlaylist ascii_toLowerCase (playlist_env five_songs) live_config ''pl1''
        ''Source'' empty_sink = (Inr empty_results, empty_sink)"
proof -
  let ?lc = ascii_toLowerCase
  let ?A = "mk_track ''A'' (Some ''US1'') (Some ''Ann'')"
  let ?B = "mk_track ''B'' None (Some ''Bob'')"
  let ?C = "mk_track ''C'' (Some ''US3'') (Some ''Cy'')"
  let ?D = "mk_track ''D'' (Some ''US1'') (Some ''Dee'')"
  let ?E = "mk_track ''E'' (Some ''US5'') (Some ''Eve'')"
  let ?s0 = "sink_with [] [False, False, False, False, False, False, False, True]"
  let ?res1 = "\<lparr> r_added = 2, r_updated = 0, r_skipped = 0, r_errors = 0,
                 r_tracks = [(''A'', Created), (''B'', Created)] \<rparr>"
  have health: "sp_health (playlist_env five_songs)"
    and meta: "sp_playlist (playlist_env five_songs) ''sp1''
                 = Inr \<lparr> pl_name = ''Mix'', pl_trackCount = 3 \<rparr>"
    by (rule playlist_env_ok)+
  have tracks: "spotify_getPlaylistTracks (playlist_env five_songs) ''sp1''
                  = Inr ([?A, ?B] @ ?C # [?D, ?E])"
    by (simp add: five_songs_tracks five_tracks_def)
  have stepA: "syncTrackToNotion ?lc live_config ?A ?s0
      = (Inr Created, sink_with [page_of 0 ?A] [False, False, False, False, True])"
    by (simp add: sink_eval live)
  have stepB: "syncTrackToNotion ?lc live_config ?B
        (sink_with [page_of 0 ?A] [False, False, False, False, True])
      = (Inr Created, sink_with [page_of (Suc 0) ?B, page_of 0 ?A] [False, False, True])"
    by (simp add: sink_eval live)
  have pre: "sync_tracks ?lc live_config ''Source'' [?A, ?B] empty_results ?s0
      = (?res1, sink_with [page_of (Suc 0) ?B, page_of 0 ?A] [False, False, True])"
    by (simp add: mk_track_ttype stepA stepB record_result_def empty_results_def mk_track_sel)
  have res: "resolve ?lc (?C\<lparr>ttype := Some ''Source''\<rparr>)
        (sink_with [page_of (Suc 0) ?B, page_of 0 ?A] [False, False, True])
      = (None, sink_with [page_of (Suc 0) ?B, page_of 0 ?A] [True])"
    by (simp add: sink_eval)
  have wr: "createTrack live_config (?C\<lparr>ttype := Some ''Source''\<rparr>)
        (sink_with [page_of (Suc 0) ?B, page_of 0 ?A] [True])
      = (Inl ApiError, sink_with [page_of (Suc 0) ?B, page_of 0 ?A] [])"
    by (simp add: sink_eval live)
  have stepD: "syncTrackToNotion ?lc live_config ?D (sink_with [page_of (Suc 0) ?B, page_of 0 ?A] [])
      = (Inr Skipped, sink_with [page_of (Suc 0) ?B, page_of 0 ?A] [])"
    by (simp add: sink_eval live)
  have stepE: "syncTrackToNotion ?lc live_config ?E (sink_with [page_of (Suc 0) ?B, page_of 0 ?A] [])
      = (Inr Created, sink_with [page_of (Suc (Suc 0)) ?E, page_of (Suc 0) ?B, page_of 0 ?A] [])"
    by (simp add: sink_eval live)
  have post: "sync_tracks ?lc live_config ''Source'' [?D, ?E] (?res1\<lparr>r_errors := r_errors ?res1 + 1\<rparr>)
        (sink_with [page_of (Suc 0) ?B, page_of 0 ?A] [])
      = (\<lparr> r_added = 3, r_updated = 0, r_skipped = 1, r_errors = 1,
            r_tracks = [(''A'', Created), (''B'', Created), (''D'', Skipped), (''E'', Created)] \<rparr>,
         sink_with [page_of (Suc (Suc 0)) ?E, page_of (Suc 0) ?B, page_of 0 ?A] [])"
    by (simp add: mk_track_ttype stepD stepE record_result_def mk_track_sel)
  have apple: "am_health (playlist_env five_songs)
      \<and> am_playlist (playlist_env five_songs) ''pl1''
            = Inr \<lparr> pl_name = ''Apple Mix'', pl_trackCount = 1 \<rparr>
      \<and> apple_getPlaylistTracks (playlist_env five_songs) ''pl1'' = Inr []"
    by (simp add: playlist_env_def demo_env_def apple_getPlaylistTracks_def)
  from failing_write_counts_one_error [OF health meta tracks pre res wr post,
         where applePlaylistId = "''pl1''" and appleTracks = "[]" and ?s0.0 = empty_sink] apple
  show ?thesis by simp
qed

section \<open>Verified properties: the upsert policy\<close>

lemma map_of_set_prop: "map_of (set_prop name v ps) = (map_of ps)(name \<mapsto> v)"
  by (induction ps) (auto simp: fun_eq_iff)

lemma overwrite_props_untouched:
  "map_of new name = None \<Longrightarrow> map_of (overwrite_props new old) name = map_of old name"
proof (induction new arbitrary: old)
  case Nil
  then show ?case by simp
next
  case (Cons kv new)
  obtain k v where kv: "kv = (k, v)" by (cases kv)
  with Cons.prems have ne: "k \<noteq> name" and rest: "map_of new name = None"
    by (auto split: if_splits)
  from Cons.IH[OF rest, of "set_prop k v old"] ne kv show ?case
    by (simp add: map_of_set_prop)
qed

lemma overwrite_props_written:
  "distinct (map fst new) \<Longrightarrow> map_of new name = Some v \<Longrightarrow>
     map_of (overwrite_props new old) name = Some v"
proof (induction new arbitrary: old)
  case Nil
  then show ?case by simp
next
  case (Cons kv new)
  obtain k w where kv: "kv = (k, w)" by (cases kv)
  show ?case
  proof (cases "k = name")
    case True
    with Cons.prems kv have "w = v" and "map_of new name = None"
      by (auto simp: map_of_eq_None_iff)
    with overwrite_props_untouched[of new name "set_prop k w old"] True kv show ?thesis
      by (simp add: map_of_set_prop)
  next
    case False
    with Cons.prems kv have "distinct (map fst new)" "map_of new name = Some v" by auto
    from Cons.IH[OF this] kv show ?thesis by simp
  qed
qed

lemma mem_keys_if_app:
  "name \<in> fst ` set ((if c then [(k, v)] else []) @ rest)
     = ((c \<and> k = name) \<or> name \<in> fst ` set rest)"
  by auto

lemma mem_keys_single_app:
  "name \<in> fst ` set ([(k, v)] @ rest) = (k = name \<or> name \<in> fst ` set rest)"
  by auto

lemma distinct_if_app:
  "distinct (map fst ((if c then [(k, v)] else []) @ rest))
     = ((c \<longrightarrow> k \<notin> fst ` set rest) \<and> distinct (map fst rest))"
  by auto

lemma distinct_single_app:
  "distinct (map fst ([(k, v)] @ rest)) = (k \<notin> fst ` set rest \<and> distinct (map fst rest))"
  by auto

lemma build_distinct: "distinct (map fst (buildTrackProperties t))"
  unfolding buildTrackProperties_def distinct_if_app distinct_single_app
    mem_keys_if_app mem_keys_single_app
  by (simp split del: if_split)

lemma build_manual:
  "map_of (buildTrackProperties t) RECORD_DATE = None"
  "map_of (buildTrackProperties t) THEMES = None"
  "map_of (buildTrackProperties t) NOTES = None"
  "map_of (buildTrackProperties t) INSTRUMENTS = None"
  "map_of (buildTrackProperties t) MOOD = None"
  "\<not> truthy (composer t) \<Longrightarrow> map_of (buildTrackProperties t) COMPOSER = None"
  unfolding buildTrackProperties_def map_of_if_app map_of_single_app
  by (simp_all split del: if_split)

lemma build_ends_with_removed:
  "map_of (overwrite_props (buildTrackProperties t) old) REMOVED = Some (PCheckbox False)"
  by (rule overwrite_props_written[OF build_distinct build_removed])

lemma filter_Cons_mem:
  assumes "filter P xs = p # rest"
  shows "p \<in> set xs"
proof -
  have "p \<in> set (filter P xs)" unfolding assms by simp
  then show ?thesis by simp
qed

lemma find_Some_mem: "find P xs = Some x \<Longrightarrow> x \<in> set xs"
  by (induction xs) (auto split: if_splits)

lemma resolve_Some_mem:
  assumes "resolve lc t s = (Some p, s1)"
  shows "p \<in> set (sink_pages s)" and "same_records s s1"
proof -
  from resolve_same[of s lc t] assms show "same_records s s1" by simp
  have 1: "fst (findTrackByIsrc i s0) = Some p \<Longrightarrow> p \<in> set (sink_pages s0)" for i s0
    by (auto simp: findTrackByIsrc_eq simp del: matches.simps split: if_splits list.splits
             dest: filter_Cons_mem)
  have 2: "fst (findTrackByTitleArtist lc ti a s0) = Some p \<Longrightarrow> p \<in> set (sink_pages s0)" for ti a s0
    by (auto simp: findTrackByTitleArtist_eq split: if_splits dest!: find_Some_mem)
  have same1: "sink_pages (snd (findTrackByIsrc i s)) = sink_pages s" for i
    by (simp add: findTrackByIsrc_eq)
  from assms show "p \<in> set (sink_pages s)"
    using 1[of "isrc t" s] 2[of "title t" "artist t" s]
          2[of "title t" "artist t" "snd (findTrackByIsrc (isrc t) s)"] same1[of "isrc t"]
    by (auto simp: resolve_def case_prod_beta split: if_splits)
qed

lemma updateTrack_eq:
  "updateTrack cfg pid t s =
     (if dryRun cfg then (Inr \<lparr> page_id = pid, props = buildTrackProperties t \<rparr>, s)
      else if fst (take_fault s) then (Inl ApiError, snd (take_fault s))
      else (case find (\<lambda>q. page_id q = pid) (sink_pages s) of
              None \<Rightarrow> (Inl ApiError, snd (take_fault s))
            | Some q \<Rightarrow>
                (Inr (update_page pid (buildTrackProperties t) q),
                 (snd (take_fault s))
                   \<lparr> sink_pages := map (update_page pid (buildTrackProperties t)) (sink_pages s) \<rparr>)))"
  by (simp add: updateTrack_def notion_pages_update_def Let_def case_prod_beta split: option.splits)

lemma find_page_id: "p \<in> set ps \<Longrightarrow> find (\<lambda>q. page_id q = page_id p) ps \<noteq> None"
  by (auto simp: find_None_iff)

lemma syncSpotifyPlaylist_never_updated:
  "fst (syncSpotifyPlaylist lc e cfg pid ty s) = Inr res \<Longrightarrow> r_updated res = 0"
proof -
  assume a: "fst (syncSpotifyPlaylist lc e cfg pid ty s) = Inr res"
  then obtain ts where "res = fst (sync_tracks lc cfg ty ts empty_results s)"
    by (auto simp: syncSpotifyPlaylist_def case_prod_beta split: if_splits sum.splits)
  moreover obtain r' s' where run: "sync_tracks lc cfg ty ts empty_results s = (r', s')"
    by (cases "sync_tracks lc cfg ty ts empty_results s")
  ultimately show ?thesis
    using sync_tracks_accounting[OF run] by (simp add: empty_results_def)
qed

text \<open>
  C1. The upsert policy. The orchestrator has no mode setting: \<open>syncTrackToNotion\<close> reads
  no configuration, and for a track whose lookup finds an existing page it makes no write
  and returns \<open>skipped\<close>, leaving the records of the sink as they were; for a track whose
  lookup finds nothing it returns what \<open>createTrack\<close> gives. It never returns \<open>updated\<close>,
  so the result of \<open>syncSpotifyPlaylist\<close> has \<open>updated = 0\<close> under every configuration.
  The second copy of the orchestrator updates instead: with dry run off and the update
  request not failing, its \<open>syncTrackToNotion\<close> returns \<open>updated\<close> and replaces the
  existing page (and no other page) by the page in which every property built from the
  track has the built value and every other property is untouched. The properties built
  from a track are never Record Date, Themes, Notes, Instruments or Mood/Keywords, and
  Composer only when the track carries a composer; \<open>Removed\<close> is always built, as false.
  The track loop of that copy counts each \<open>updated\<close> it is given once, under \<open>updated\<close>.
\<close>

theorem upsert_policy_of_the_orchestrators:
  "(resolve lc t s = (Some p, s1) \<longrightarrow>
      syncTrackToNotion lc cfg t s = (Inr Skipped, s1) \<and> same_records s s1)
   \<and> (resolve lc t s = (None, s1) \<longrightarrow>
      syncTrackToNotion lc cfg t s
        = (case createTrack cfg t s1 of
             (Inr newPage, s2) \<Rightarrow> (Inr Created, s2) | (Inl err, s2) \<Rightarrow> (Inl err, s2)))
   \<and> fst (syncTrackToNotion lc cfg t s) \<noteq> Inr Updated
   \<and> (fst (syncSpotifyPlaylist lc e cfg playlistId playlistType s) = Inr res
        \<longrightarrow> r_updated res = 0)
   \<and> (resolve lc t s = (Some p, s1) \<and> \<not> dryRun cfg \<and> \<not> fst (take_fault s1) \<longrightarrow>
        fst (syncTrackToNotion_updating lc cfg t s) = Inr Updated
        \<and> sink_pages (snd (syncTrackToNotion_updating lc cfg t s))
            = map (update_page (page_id p) (buildTrackProperties t)) (sink_pages s)
        \<and> p \<in> set (sink_pages s)
        \<and> (\<forall>name v. map_of (buildTrackProperties t) name = Some v \<longrightarrow>
              map_of (props (update_page (page_id p) (buildTrackProperties t) p)) name = Some v)
        \<and> (\<forall>name. map_of (buildTrackProperties t) name = None \<longrightarrow>
              map_of (props (update_page (page_id p) (buildTrackProperties t) p)) name
                = map_of (props p) name)
        \<and> (\<forall>name \<in> set manual_fields. (name = COMPOSER \<longrightarrow> \<not> truthy (composer t)) \<longrightarrow>
              map_of (props (update_page (page_id p) (buildTrackProperties t) p)) name
                = map_of (props p) name)
        \<and> checkbox_value (update_page (page_id p) (buildTrackProperties t) p) REMOVED = False
        \<and> (\<forall>q \<in> set (sink_pages s). page_id q \<noteq> page_id p \<longrightarrow>
              update_page (page_id p) (buildTrackProperties t) q = q))
   \<and> (syncTrackToNotion_updating lc cfg t s = (Inr Updated, s2) \<longrightarrow>
        sync_tracks_updating lc cfg (t # ts) res0 s
          = sync_tracks_updating lc cfg ts
              (res0\<lparr> r_tracks := r_tracks res0 @ [(title t, Updated)],
                     r_updated := r_updated res0 + 1 \<rparr>) s2)"
proof (intro conjI impI)
  assume "syncTrackToNotion_updating lc cfg t s = (Inr Updated, s2)"
  then show "sync_tracks_updating lc cfg (t # ts) res0 s
          = sync_tracks_updating lc cfg ts
              (res0\<lparr> r_tracks := r_tracks res0 @ [(title t, Updated)],
                     r_updated := r_updated res0 + 1 \<rparr>) s2"
    by (simp add: Let_def)
next
  assume r: "resolve lc t s = (Some p, s1)"
  then show "syncTrackToNotion lc cfg t s = (Inr Skipped, s1)"
    by (simp add: syncTrackToNotion_def)
  from resolve_Some_mem(2)[OF r] show "same_records s s1" .
next
  assume "resolve lc t s = (None, s1)"
  then show "syncTrackToNotion lc cfg t s
        = (case createTrack cfg t s1 of
             (Inr newPage, s2) \<Rightarrow> (Inr Created, s2) | (Inl err, s2) \<Rightarrow> (Inl err, s2))"
    by (simp add: syncTrackToNotion_def)
next
  show "fst (syncTrackToNotion lc cfg t s) \<noteq> Inr Updated"
    by (auto simp: syncTrackToNotion_def split: prod.splits option.splits sum.splits)
next
  assume "fst (syncSpotifyPlaylist lc e cfg playlistId playlistType s) = Inr res"
  then show "r_updated res = 0" by (rule syncSpotifyPlaylist_never_updated)
next
  assume a: "resolve lc t s = (Some p, s1) \<and> \<not> dryRun cfg \<and> \<not> fst (take_fault s1)"
  then have r: "resolve lc t s = (Some p, s1)" and live: "\<not> dryRun cfg"
    and ok: "\<not> fst (take_fault s1)" by auto
  from resolve_Some_mem[OF r] have mem: "p \<in> set (sink_pages s)"
    and same: "sink_pages s1 = sink_pages s" by (auto simp: same_records_def)
  from find_page_id[OF mem] obtain q where
    q: "find (\<lambda>q. page_id q = page_id p) (sink_pages s) = Some q" by auto
  let ?new = "buildTrackProperties t"
  let ?p' = "update_page (page_id p) ?new p"
  have upd: "updateTrack cfg (page_id p) t s1 =
      (Inr (update_page (page_id p) ?new q),
       (snd (take_fault s1))\<lparr> sink_pages := map (update_page (page_id p) ?new) (sink_pages s) \<rparr>)"
    using live ok q by (simp add: updateTrack_eq same)
  have step: "syncTrackToNotion_updating lc cfg t s =
      (Inr Updated,
       (snd (take_fault s1))\<lparr> sink_pages := map (update_page (page_id p) ?new) (sink_pages s) \<rparr>)"
    using r upd by (simp add: syncTrackToNotion_updating_def)
  have props': "props ?p' = overwrite_props ?new (props p)"
    by (simp add: update_page_def)
  show "fst (syncTrackToNotion_updating lc cfg t s) = Inr Updated" by (simp add: step)
  show "sink_pages (snd (syncTrackToNotion_updating lc cfg t s))
            = map (update_page (page_id p) ?new) (sink_pages s)" by (simp add: step)
  show "p \<in> set (sink_pages s)" by (rule mem)
  show "\<forall>name v. map_of ?new name = Some v \<longrightarrow> map_of (props ?p') name = Some v"
    by (simp add: props' overwrite_props_written[OF build_distinct])
  show untouched: "\<forall>name. map_of ?new name = None \<longrightarrow> map_of (props ?p') name = map_of (props p) name"
    by (simp add: props' overwrite_props_untouched)
  show "\<forall>name \<in> set manual_fields. (name = COMPOSER \<longrightarrow> \<not> truthy (composer t)) \<longrightarrow>
              map_of (props ?p') name = map_of (props p) name"
    using untouched build_manual[of t] by (auto simp: manual_fields_def)
  show "checkbox_value ?p' REMOVED = False"
    by (simp add: checkbox_value_def props' build_ends_with_removed)
  show "\<forall>q \<in> set (sink_pages s). page_id q \<noteq> page_id p \<longrightarrow> update_page (page_id p) ?new q = q"
    by (simp add: update_page_def)
qed


lemma noted_page_sel:
  "page_id noted_page = PageId 0"
  "props noted_page = [(NOTES, PRichText [''keep'']), (TRACK_TITLE, PTitle [''One'']),
     (ARTIST, PRichText [''Old Ann'']), (PERFORMED_BY, PRichText [''Old Ann'']),
     (DURATION, PRichText [''3:20'']), (ISRC_UPC, PRichText [''US1'']),
     (PLAYLIST, PSelect (Some ''Mix'')), (TYPE_FIELD, PSelect (Some ''Source'')),
     (REMOVED, PCheckbox False)]"
  by (simp_all add: noted_page_def mk_track_props truthy_def)

lemma updated_page_sel:
  "page_id updated_page = PageId 0"
  "props updated_page = [(NOTES, PRichText [''keep'']), (TRACK_TITLE, PTitle [''One'']),
     (ARTIST, PRichText [''Ann'']), (PERFORMED_BY, PRichText [''Ann'']),
     (DURATION, PRichText [''3:20'']), (ISRC_UPC, PRichText [''US1'']),
     (PLAYLIST, PSelect (Some ''Mix'')), (TYPE_FIELD, PSelect (Some ''Source'')),
     (REMOVED, PCheckbox False)]"
  by (simp_all add: updated_page_def mk_track_props truthy_def)

lemma three_songs_tracks:
  "spotify_getPlaylistTracks (playlist_env three_songs) pid = Inr three_tracks"
  by (simp add: playlist_env_tracks three_songs_def three_tracks_def raw_track_type
        normalized_track truthy_def)

lemma update_noted_page:
  "update_page (PageId 0) (buildTrackProperties (mk_track ''One'' (Some ''US1'') (Some ''Ann'')))
     noted_page = updated_page"
  by (simp add: update_page_def noted_page_def updated_page_def mk_track_props truthy_def)

lemma update_other_page:
  "update_page (PageId 0) new (page_of (Suc 0) t) = page_of (Suc 0) t"
  by (simp add: update_page_def page_of_def)

lemma update_same_page:
  "update_page (PageId (Suc 0)) (buildTrackProperties (mk_track ''Two'' (Some ''US2'') (Some ''Bob'')))
     (page_of (Suc 0) (mk_track ''Two'' (Some ''US2'') (Some ''Bob'')))
     = page_of (Suc 0) (mk_track ''Two'' (Some ''US2'') (Some ''Bob''))"
  "update_page (PageId (Suc 0)) new updated_page = updated_page"
  by (simp_all add: update_page_def page_of_def updated_page_def mk_track_props truthy_def)

lemma run_preserving:
  "sync_tracks ascii_toLowerCase cfg ''Source'' three_tracks empty_results two_in_sink
     = (case createTrack cfg (mk_track ''Three'' (Some ''US3'') (Some ''Cy'')) two_in_sink of
          (Inr newPage, s2) \<Rightarrow>
            (\<lparr> r_added = 1, r_updated = 0, r_skipped = 2, r_errors = 0,
               r_tracks = [(''One'', Skipped), (''Two'', Skipped), (''Three'', Created)] \<rparr>, s2)
        | (Inl err, s2) \<Rightarrow>
            (\<lparr> r_added = 0, r_updated = 0, r_skipped = 2, r_errors = 1,
               r_tracks = [(''One'', Skipped), (''Two'', Skipped)] \<rparr>, s2))"
proof -
  let ?lc = ascii_toLowerCase
  let ?One = "mk_track ''One'' (Some ''US1'') (Some ''Ann'')"
  let ?Two = "mk_track ''Two'' (Some ''US2'') (Some ''Bob'')"
  let ?Three = "mk_track ''Three'' (Some ''US3'') (Some ''Cy'')"
  let ?s = "sink_with [page_of (Suc 0) ?Two, noted_page] []"
  have r1: "resolve ?lc ?One ?s = (Some noted_page, ?s)"
    by (simp add: resolve_def findTrackByIsrc_eq sink_with_simps mk_track_sel
          page_of_props mk_track_props noted_page_sel truthy_def)
  have r2: "resolve ?lc ?Two ?s = (Some (page_of (Suc 0) ?Two), ?s)"
    by (simp add: resolve_def findTrackByIsrc_eq sink_with_simps mk_track_sel
          page_of_props mk_track_props noted_page_sel truthy_def)
  have r3: "resolve ?lc ?Three ?s = (None, ?s)"
    by (simp add: resolve_def findTrackByIsrc_eq findTrackByTitleArtist_eq sink_with_simps
          mk_track_sel page_of_props mk_track_props noted_page_sel js_eval)
  show ?thesis
    by (simp add: three_tracks_def two_in_sink_def mk_track_ttype syncTrackToNotion_def r1 r2 r3
          record_result_def empty_results_def mk_track_sel split: prod.splits sum.splits)
qed


lemma sink_with_pages_update:
  "length ps' = length ps \<Longrightarrow> (sink_with ps fs)\<lparr> sink_pages := ps' \<rparr> = sink_with ps' fs"
  by (simp add: sink_with_def)

lemma run_updating:
  "sync_tracks_updating ascii_toLowerCase live_config three_tracks empty_results two_in_sink
     = (\<lparr> r_added = 1, r_updated = 2, r_skipped = 0, r_errors = 0,
          r_tracks = [(''One'', Updated), (''Two'', Updated), (''Three'', Created)] \<rparr>,
        sink_with [page_of (Suc (Suc 0)) (mk_track ''Three'' (Some ''US3'') (Some ''Cy'')),
                   page_of (Suc 0) (mk_track ''Two'' (Some ''US2'') (Some ''Bob'')),
                   updated_page] [])"
proof -
  let ?lc = ascii_toLowerCase
  let ?One = "mk_track ''One'' (Some ''US1'') (Some ''Ann'')"
  let ?Two = "mk_track ''Two'' (Some ''US2'') (Some ''Bob'')"
  let ?Three = "mk_track ''Three'' (Some ''US3'') (Some ''Cy'')"
  let ?s = "sink_with [page_of (Suc 0) ?Two, noted_page] []"
  let ?s' = "sink_with [page_of (Suc 0) ?Two, updated_page] []"
  have r1: "resolve ?lc ?One ?s = (Some noted_page, ?s)"
    by (simp add: resolve_def findTrackByIsrc_eq sink_with_simps mk_track_sel
          page_of_props mk_track_props noted_page_sel truthy_def)
  have u1: "updateTrack live_config (PageId 0) ?One ?s = (Inr updated_page, ?s')"
    by (simp add: updateTrack_eq live sink_with_simps page_of_props noted_page_sel
          update_noted_page update_other_page sink_with_pages_update)
  have r2: "resolve ?lc ?Two ?s' = (Some (page_of (Suc 0) ?Two), ?s')"
    by (simp add: resolve_def findTrackByIsrc_eq sink_with_simps mk_track_sel
          page_of_props mk_track_props updated_page_sel truthy_def)
  have u2: "updateTrack live_config (PageId (Suc 0)) ?Two ?s' = (Inr (page_of (Suc 0) ?Two), ?s')"
    by (simp add: updateTrack_eq live sink_with_simps page_of_props updated_page_sel
          update_same_page sink_with_pages_update)
  have r3: "resolve ?lc ?Three ?s' = (None, ?s')"
    by (simp add: resolve_def findTrackByIsrc_eq findTrackByTitleArtist_eq sink_with_simps
          mk_track_sel page_of_props mk_track_props updated_page_sel js_eval)
  have c3: "createTrack live_config ?Three ?s'
      = (Inr (page_of (Suc (Suc 0)) ?Three),
         sink_with [page_of (Suc (Suc 0)) ?Three, page_of (Suc 0) ?Two, updated_page] [])"
    by (simp add: createTrack_eq live sink_with_simps page_of_eq)
  show ?thesis
    by (simp add: three_tracks_def two_in_sink_def syncTrackToNotion_updating_def
          r1 u1 r2 u2 r3 c3 noted_page_sel page_of_props empty_results_def mk_track_sel)
qed

theorem upsert_policy_of_the_orchestrators_witness:
  "syncTrackToNotion ascii_toLowerCase live_config (mk_track ''One'' (Some ''US1'') (Some ''Ann''))
       two_in_sink = (Inr Skipped, two_in_sink)
   \<and> syncTrackToNotion ascii_toLowerCase live_config (mk_track ''Three'' (Some ''US3'') (Some ''Cy''))
       two_in_sink
     = (Inr Created, sink_with [page_of (Suc (Suc 0)) (mk_track ''Three'' (Some ''US3'') (Some ''Cy'')),
                               page_of (Suc 0) (mk_track ''Two'' (Some ''US2'') (Some ''Bob'')),
                               noted_page] [])
   \<and> fst (syncSpotifyPlaylist ascii_toLowerCase (playlist_env three_songs) live_config ''sp1''
            ''Source'' two_in_sink)
     = Inr \<lparr> r_added = 1, r_updated = 0, r_skipped = 2, r_errors = 0,
             r_tracks = [(''One'', Skipped), (''Two'', Skipped), (''Three'', Created)] \<rparr>
   \<and> fst (syncTrackToNotion_updating ascii_toLowerCase live_config
            (mk_track ''One'' (Some ''US1'') (Some ''Ann'')) two_in_sink) = Inr Updated
   \<and> sink_pages (snd (syncTrackToNotion_updating ascii_toLowerCase live_config
            (mk_track ''One'' (Some ''US1'') (Some ''Ann'')) two_in_sink))
     = [page_of (Suc 0) (mk_track ''Two'' (Some ''US2'') (Some ''Bob'')), updated_page]
   \<and> map_of (props noted_page) ARTIST = Some (PRichText [''Old Ann''])
   \<and> map_of (props updated_page) ARTIST = Some (PRichText [''Ann''])
   \<and> map_of (props noted_page) NOTES = Some (PRichText [''keep''])
   \<and> map_of (props updated_page) NOTES = Some (PRichText [''keep''])
   \<and> checkbox_value updated_page REMOVED = False
   \<and> fst (sync_tracks_updating ascii_toLowerCase live_config three_tracks empty_results two_in_sink)
     = \<lparr> r_added = 1, r_updated = 2, r_skipped = 0, r_errors = 0,
         r_tracks = [(''One'', Updated), (''Two'', Updated), (''Three'', Created)] \<rparr>"
proof -
  let ?lc = ascii_toLowerCase
  let ?One = "mk_track ''One'' (Some ''US1'') (Some ''Ann'')"
  let ?Two = "mk_track ''Two'' (Some ''US2'') (Some ''Bob'')"
  let ?Three = "mk_track ''Three'' (Some ''US3'') (Some ''Cy'')"
  let ?e = "playlist_env three_songs"
  let ?res = "\<lparr> r_added = 1, r_updated = 0, r_skipped = 2, r_errors = 0,
                r_tracks = [(''One'', Skipped), (''Two'', Skipped), (''Three'', Created)] \<rparr>"
  have r1: "resolve ?lc ?One two_in_sink = (Some noted_page, two_in_sink)"
    by (simp add: two_in_sink_def resolve_def findTrackByIsrc_eq sink_with_simps mk_track_sel
          page_of_props mk_track_props noted_page_sel truthy_def)
  have r3: "resolve ?lc ?Three two_in_sink = (None, two_in_sink)"
    by (simp add: two_in_sink_def resolve_def findTrackByIsrc_eq findTrackByTitleArtist_eq
          sink_with_simps mk_track_sel page_of_props mk_track_props noted_page_sel js_eval)
  have c3: "createTrack live_config ?Three two_in_sink
      = (Inr (page_of (Suc (Suc 0)) ?Three),
         sink_with [page_of (Suc (Suc 0)) ?Three, page_of (Suc 0) ?Two, noted_page] [])"
    by (simp add: two_in_sink_def createTrack_eq live sink_with_simps page_of_eq)
  have drv: "fst (syncSpotifyPlaylist ?lc ?e live_config ''sp1'' ''Source'' two_in_sink) = Inr ?res"
    by (simp add: syncSpotifyPlaylist_def playlist_env_ok three_songs_tracks run_preserving c3)
  have ok: "\<not> dryRun live_config \<and> \<not> fst (take_fault two_in_sink)"
    by (simp add: live two_in_sink_def sink_with_simps)
  have upd: "update_page (page_id noted_page) (buildTrackProperties ?One) noted_page = updated_page"
    by (simp add: noted_page_sel update_noted_page)
  have pages: "map (update_page (page_id noted_page) (buildTrackProperties ?One))
                 (sink_pages two_in_sink) = [page_of (Suc 0) ?Two, updated_page]"
    by (simp add: two_in_sink_def sink_with_simps noted_page_sel update_noted_page update_other_page)
  have manual: "NOTES \<in> set manual_fields" by (simp add: manual_fields_def)
  from upsert_policy_of_the_orchestrators
         [where lc = ?lc and t = ?One and s = two_in_sink and p = noted_page and ?s1.0 = two_in_sink
            and cfg = live_config and e = ?e and playlistId = "''sp1''"
            and playlistType = "''Source''" and res = ?res]
       r1 drv ok
  have one: "syncTrackToNotion ?lc live_config ?One two_in_sink = (Inr Skipped, two_in_sink)"
    and upd1: "fst (syncTrackToNotion_updating ?lc live_config ?One two_in_sink) = Inr Updated"
    and pages1: "sink_pages (snd (syncTrackToNotion_updating ?lc live_config ?One two_in_sink))
        = [page_of (Suc 0) ?Two, updated_page]"
    and keep: "map_of (props updated_page) NOTES = map_of (props noted_page) NOTES"
    and rem: "checkbox_value updated_page REMOVED = False"
    using manual by (simp_all add: upd pages)
  from upsert_policy_of_the_orchestrators
         [where lc = ?lc and t = ?Three and s = two_in_sink and ?s1.0 = two_in_sink
            and cfg = live_config] r3 c3
  have three: "syncTrackToNotion ?lc live_config ?Three two_in_sink
      = (Inr Created, sink_with [page_of (Suc (Suc 0)) ?Three, page_of (Suc 0) ?Two, noted_page] [])"
    by simp
  show ?thesis
    using one three drv upd1 pages1 keep rem
    by (simp add: run_updating noted_page_sel updated_page_sel)
qed

text \<open>
  C1 as stated fails on the playlist of three tracks, two of them with their ISRC already
  in the sink: under every configuration the playlist driver reports two skipped and none
  updated, and the stored artist of the first record stays as it was. With dry run off or
  on the result is one created, two skipped.
\<close>

theorem upsert_update_mode_counterexample:
  "(\<forall>cfg. \<exists>res. fst (syncSpotifyPlaylist ascii_toLowerCase (playlist_env three_songs) cfg ''sp1''
                        ''Source'' two_in_sink) = Inr res
            \<and> r_updated res = 0 \<and> r_skipped res = 2)
   \<and> fst (syncSpotifyPlaylist ascii_toLowerCase (playlist_env three_songs) live_config ''sp1''
            ''Source'' two_in_sink)
     = Inr \<lparr> r_added = 1, r_updated = 0, r_skipped = 2, r_errors = 0,
             r_tracks = [(''One'', Skipped), (''Two'', Skipped), (''Three'', Created)] \<rparr>
   \<and> sink_pages (snd (syncSpotifyPlaylist ascii_toLowerCase (playlist_env three_songs) live_config
                        ''sp1'' ''Source'' two_in_sink))
     = [page_of (Suc (Suc 0)) (mk_track ''Three'' (Some ''US3'') (Some ''Cy'')),
        page_of (Suc 0) (mk_track ''Two'' (Some ''US2'') (Some ''Bob'')), noted_page]
   \<and> map_of (props noted_page) ARTIST = Some (PRichText [''Old Ann''])
   \<and> fst (syncSpotifyPlaylist ascii_toLowerCase (playlist_env three_songs) dry_config ''sp1''
            ''Source'' two_in_sink)
     = Inr \<lparr> r_added = 1, r_updated = 0, r_skipped = 2, r_errors = 0,
             r_tracks = [(''One'', Skipped), (''Two'', Skipped), (''Three'', Created)] \<rparr>"
proof -
  let ?Two = "mk_track ''Two'' (Some ''US2'') (Some ''Bob'')"
  let ?Three = "mk_track ''Three'' (Some ''US3'') (Some ''Cy'')"
  have c3: "createTrack live_config ?Three two_in_sink
      = (Inr (page_of (Suc (Suc 0)) ?Three),
         sink_with [page_of (Suc (Suc 0)) ?Three, page_of (Suc 0) ?Two, noted_page] [])"
    by (simp add: two_in_sink_def createTrack_eq live sink_with_simps page_of_eq)
  have d3: "createTrack dry_config ?Three two_in_sink
      = (Inr \<lparr> page_id = DryRunId, props = buildTrackProperties ?Three \<rparr>, two_in_sink)"
    by (simp add: createTrack_eq dry_config_def)
  have all: "\<exists>res. fst (syncSpotifyPlaylist ascii_toLowerCase (playlist_env three_songs) cfg ''sp1''
                        ''Source'' two_in_sink) = Inr res
            \<and> r_updated res = 0 \<and> r_skipped res = 2" for cfg
    by (cases "createTrack cfg ?Three two_in_sink")
       (simp add: syncSpotifyPlaylist_def playlist_env_ok three_songs_tracks run_preserving
          split: sum.splits)
  show ?thesis
    using all
    by (simp add: syncSpotifyPlaylist_def playlist_env_ok three_songs_tracks run_preserving c3 d3
          sink_with_simps noted_page_sel)
qed

section \<open>Verified properties: the full sync\<close>















section \<open>Verified properties: the cleanup of removed tracks\<close>


lemma update_page_id [simp]: "page_id (update_page pid new p) = page_id p"
  by (simp add: update_page_def)























end
